theory Spec2Isabelle
  imports Main "HOL-Library.Sublist" "HOL-Library.Multiset"
begin

section \<open>Strings, numbers and clock readings\<close>

text \<open>
  A JavaScript string is modelled as a \<^typ>\<open>string\<close> that holds the bytes of its UTF-8
  encoding; every key, message id and payload delimiter the program itself produces is
  ASCII. The clock (\<open>Date.now()\<close>, \<open>new Date().toISOString()\<close>) is an input of each
  handler that reads it.
\<close>

definition utf8 :: "nat list \<Rightarrow> string" where
  "utf8 bs = map char_of bs"

definition toLowerCase_char :: "char \<Rightarrow> char" where
  "toLowerCase_char c =
     (case map_of (zip ''ABCDEFGHIJKLMNOPQRSTUVWXYZ'' ''abcdefghijklmnopqrstuvwxyz'') c of
        Some l \<Rightarrow> l
      | None \<Rightarrow> c)"

text \<open>
  \<open>String.prototype.toLowerCase\<close>, as far as a property lookup by an ASCII name can tell:
  \<open>Some s\<close> when the lower-case form of the text is the ASCII text \<open>s\<close>, \<open>None\<close> when
  the lower-case form holds a character outside ASCII. The Unicode lower-case mapping sends
  \<open>A\<close>..\<open>Z\<close> to \<open>a\<close>..\<open>z\<close>, keeps every other ASCII character, and sends U+212A
  KELVIN SIGN (in UTF-8 the bytes E2 84 AA) to \<open>k\<close>; the lower-case form of every other
  character outside ASCII holds a character outside ASCII. A byte with its top bit set
  (\<open>digit7\<close>) belongs to a character outside ASCII.
\<close>

fun toLowerCase :: "string \<Rightarrow> string option" where
  "toLowerCase (a # b # c # cs) =
     (if a = CHR 0xE2 \<and> b = CHR 0x84 \<and> c = CHR 0xAA then
        map_option (Cons CHR ''k'') (toLowerCase cs)
      else if digit7 a then None
      else map_option (Cons (toLowerCase_char a)) (toLowerCase (b # c # cs)))"
| "toLowerCase (a # cs) =
     (if digit7 a then None else map_option (Cons (toLowerCase_char a)) (toLowerCase cs))"
| "toLowerCase [] = Some []"

declare toLowerCase.simps [simp del]

text \<open>
  The characters that \<open>trim\<close> and \<open>parseFloat\<close> strip (ECMAScript WhiteSpace and
  LineTerminator), each in UTF-8: TAB, LF, VT, FF, CR, SPACE, U+00A0, U+1680, U+2000 to
  U+200A, U+2028, U+2029, U+202F, U+205F, U+3000 and U+FEFF.
\<close>

definition white_space :: "string list" where
  "white_space =
     [[CHR 0x09], [CHR 0x0A], [CHR 0x0B], [CHR 0x0C], [CHR 0x0D], [CHR 0x20],
      [CHR 0xC2, CHR 0xA0],
      [CHR 0xE1, CHR 0x9A, CHR 0x80],
      [CHR 0xE2, CHR 0x80, CHR 0x80], [CHR 0xE2, CHR 0x80, CHR 0x81],
      [CHR 0xE2, CHR 0x80, CHR 0x82], [CHR 0xE2, CHR 0x80, CHR 0x83],
      [CHR 0xE2, CHR 0x80, CHR 0x84], [CHR 0xE2, CHR 0x80, CHR 0x85],
      [CHR 0xE2, CHR 0x80, CHR 0x86], [CHR 0xE2, CHR 0x80, CHR 0x87],
      [CHR 0xE2, CHR 0x80, CHR 0x88], [CHR 0xE2, CHR 0x80, CHR 0x89],
      [CHR 0xE2, CHR 0x80, CHR 0x8A],
      [CHR 0xE2, CHR 0x80, CHR 0xA8], [CHR 0xE2, CHR 0x80, CHR 0xA9],
      [CHR 0xE2, CHR 0x80, CHR 0xAF],
      [CHR 0xE2, CHR 0x81, CHR 0x9F],
      [CHR 0xE3, CHR 0x80, CHR 0x80],
      [CHR 0xEF, CHR 0xBB, CHR 0xBF]]"

text \<open>\<open>strip_front ws s\<close> removes members of \<open>ws\<close> from the front of \<open>s\<close> as long as there is one.\<close>

function strip_front :: "string list \<Rightarrow> string \<Rightarrow> string" where
  "strip_front ws s =
     (case find (\<lambda>w. w \<noteq> [] \<and> prefix w s) ws of
        Some w \<Rightarrow> strip_front ws (drop (length w) s)
      | None \<Rightarrow> s)"
  by pat_completeness auto
termination
proof (relation "measure (\<lambda>(ws, s). length s)")
  show "wf (measure (\<lambda>(ws, s). length s))" by simp
next
  fix ws :: "string list" and s w :: string
  assume "find (\<lambda>w. w \<noteq> [] \<and> prefix w s) ws = Some w"
  then have "w \<noteq> []" and "prefix w s" by (auto simp: find_Some_iff)
  then have "s \<noteq> []" by auto
  with \<open>w \<noteq> []\<close> show "((ws, drop (length w) s), (ws, s)) \<in> measure (\<lambda>(ws, s). length s)"
    by simp
qed

declare strip_front.simps [simp del]

definition trimStart :: "string \<Rightarrow> string" where
  "trimStart s = strip_front white_space s"

definition trimEnd :: "string \<Rightarrow> string" where
  "trimEnd s = rev (strip_front (map rev white_space) (rev s))"

definition trim :: "string \<Rightarrow> string" where
  "trim s = trimEnd (trimStart s)"

definition is_digit :: "char \<Rightarrow> bool" where
  "is_digit c = (c \<in> set ''0123456789'')"

definition digit_char :: "nat \<Rightarrow> char" where
  "digit_char d = ''0123456789'' ! d"

text \<open>\<open>Number.prototype.toString\<close> on a non-negative integer: its decimal digits.\<close>

function toString :: "nat \<Rightarrow> string" where
  "toString n =
     (if n < 10 then [digit_char n] else toString (n div 10) @ [digit_char (n mod 10)])"
  by pat_completeness auto
termination
  by (relation "measure id") auto

declare toString.simps [simp del]

text \<open>
  A JavaScript number as far as the program looks at it: \<open>NaN\<close>, or the number denoted by a
  decimal literal (\<open>Num lit\<close> stands for the double nearest to the value of \<open>lit\<close>; the
  rounding is not modelled).
\<close>

datatype number = NaN | Num string

text \<open>
  \<open>parseFloat\<close> (ECMAScript 19.2.4): strip leading white space, take the longest prefix
  that is a \<open>StrDecimalLiteral\<close>, and return \<open>NaN\<close> when there is none.
\<close>

definition exponent_prefix :: "string \<Rightarrow> string" where
  "exponent_prefix s =
     (case s of
        [] \<Rightarrow> []
      | e # r \<Rightarrow>
          if e = CHR ''e'' \<or> e = CHR ''E'' then
            (let sg = (case r of
                         [] \<Rightarrow> []
                       | c # _ \<Rightarrow> if c = CHR ''+'' \<or> c = CHR ''-'' then [c] else []);
                 ds = takeWhile is_digit (drop (length sg) r)
             in if ds = [] then [] else e # sg @ ds)
          else [])"

definition unsigned_prefix :: "string \<Rightarrow> string option" where
  "unsigned_prefix s =
     (if prefix ''Infinity'' s then Some ''Infinity''
      else
        let ip = takeWhile is_digit s; r = dropWhile is_digit s in
        if ip \<noteq> [] then
          (case r of
             [] \<Rightarrow> Some ip
           | c # r2 \<Rightarrow>
               if c = CHR ''.'' then
                 Some (ip @ c # takeWhile is_digit r2 @ exponent_prefix (dropWhile is_digit r2))
               else Some (ip @ exponent_prefix r))
        else
          (case r of
             [] \<Rightarrow> None
           | c # r2 \<Rightarrow>
               if c = CHR ''.'' \<and> takeWhile is_digit r2 \<noteq> [] then
                 Some (c # takeWhile is_digit r2 @ exponent_prefix (dropWhile is_digit r2))
               else None))"

definition decimal_prefix :: "string \<Rightarrow> string option" where
  "decimal_prefix s =
     (case s of
        [] \<Rightarrow> None
      | c # r \<Rightarrow>
          if c = CHR ''+'' \<or> c = CHR ''-'' then map_option (Cons c) (unsigned_prefix r)
          else unsigned_prefix s)"

definition parseFloat :: "string \<Rightarrow> number" where
  "parseFloat s = (case decimal_prefix (trimStart s) of None \<Rightarrow> NaN | Some lit \<Rightarrow> Num lit)"

section \<open>Data model\<close>

text \<open>
  The interfaces of the source, one record each. Several interfaces share field names
  (\<open>id\<close>, \<open>name\<close>, \<open>title\<close>, ...); the fields carry a short prefix here: \<open>m_\<close> for
  Material, \<open>r_\<close> for MaterialRequired, \<open>s_\<close> for Suggestion, \<open>st_\<close> for a step, \<open>c_\<close>
  for ChatMessage.
\<close>

record Material =
  m_id :: string
  m_name :: string
  m_quantity :: number
  m_unit :: string

record MaterialRequired =
  r_name :: string
  r_quantity :: number
  r_unit :: string

record Suggestion =
  s_id :: string
  s_title :: string
  s_description :: string
  materials_required :: "MaterialRequired list"
  image_base64 :: "string option"

record PowerTask =
  task :: string
  kwh :: number

text \<open>The response schema declares \<open>step\<close> an INTEGER.\<close>

record Step =
  st_step :: int
  st_title :: string
  st_description :: string

record ProjectData =
  total_power_consumption_kwh :: number
  power_consumption_breakdown :: "PowerTask list"
  steps :: "Step list"

datatype role = User | Model

record ChatMessage =
  c_id :: string
  c_role :: role
  c_text :: string

datatype language = En | Ar

datatype difficulty = Easy | Medium | Hard

datatype tab = Recycler | Chatbot

text \<open>A chat session handle: the model it talks to and the system instruction it was created with.\<close>

record Chat =
  chat_model :: string
  systemInstruction :: string

record AppState =
  materials :: "Material list"
  suggestions :: "Suggestion list"
  selectedSuggestion :: "Suggestion option"
  projectData :: "ProjectData option"
  isLoading :: bool
  error :: "string option"
  difficulty :: difficulty
  language :: language
  activeTab :: tab
  chat :: "Chat option"
  chatMessages :: "ChatMessage list"
  isChatLoading :: bool

section \<open>Gemini services\<close>

datatype failure =
  InvalidJsonResponse
  | EmptySuggestionsResponse
  | EmptyStepsResponse
  | ServiceFailure

subsection \<open>parseJsonResponse\<close>

text \<open>
  \<open>split_on pat s\<close> cuts \<open>s\<close> at the leftmost occurrence of \<open>pat\<close>: the text before it
  and the text after it.
\<close>

fun split_on :: "string \<Rightarrow> string \<Rightarrow> (string \<times> string) option" where
  "split_on pat [] = (if pat = [] then Some ([], []) else None)"
| "split_on pat (c # cs) =
     (if prefix pat (c # cs) then Some ([], drop (length pat) (c # cs))
      else map_option (\<lambda>(a, b). (c # a, b)) (split_on pat cs))"

definition fence_open :: string where
  "fence_open = ''```json'' @ [CHR 0x0A]"

definition fence_close :: string where
  "fence_close = CHR 0x0A # ''```''"

text \<open>
  The capture group of \<open>jsonString.match(/```json\n([\s\S]*?)\n```/)\<close>. The group is lazy and
  matches any character, so the match starts at the leftmost \<open>```json\n\<close> that has a
  \<open>\n```\<close> after it and ends at the first such closer; a closer that serves a later opener
  serves the leftmost one too, so it is enough to look after the leftmost opener.
\<close>

definition fence_match :: "string \<Rightarrow> string option" where
  "fence_match jsonString =
     (case split_on fence_open jsonString of
        None \<Rightarrow> None
      | Some (before, rest) \<Rightarrow> map_option fst (split_on fence_close rest))"

text \<open>
  The text handed to \<open>JSON.parse\<close>: the body of the \<open>try\<close> block makes exactly one call,
  on the captured block when there is a match with a non-empty capture, on the whole string
  otherwise.
\<close>

definition parseJsonResponse_input :: "string \<Rightarrow> string" where
  "parseJsonResponse_input jsonString =
     (case fence_match jsonString of
        Some block \<Rightarrow> if block \<noteq> [] then block else jsonString
      | None \<Rightarrow> jsonString)"

definition parseJsonResponse_attempts :: "string \<Rightarrow> string list" where
  "parseJsonResponse_attempts jsonString = [parseJsonResponse_input jsonString]"

text \<open>
  \<open>JSON_parse\<close> is the built-in \<open>JSON.parse\<close> followed by the source's unchecked cast to
  the declared result type: \<open>None\<close> when it throws.
\<close>

definition parseJsonResponse :: "(string \<Rightarrow> 'j option) \<Rightarrow> string \<Rightarrow> failure + 'j" where
  "parseJsonResponse JSON_parse jsonString =
     (case JSON_parse (parseJsonResponse_input jsonString) of
        Some v \<Rightarrow> Inr v
      | None \<Rightarrow> Inl InvalidJsonResponse)"

text \<open>
  The procedure in the words of the specification, for comparison: parse the whole payload;
  only when that fails look for a fenced block and parse its contents; fail when both fail.
\<close>

definition spec_parseJsonResponse :: "(string \<Rightarrow> 'j option) \<Rightarrow> string \<Rightarrow> failure + 'j" where
  "spec_parseJsonResponse JSON_parse jsonString =
     (case JSON_parse jsonString of
        Some v \<Rightarrow> Inr v
      | None \<Rightarrow>
          (case fence_match jsonString of
             None \<Rightarrow> Inl InvalidJsonResponse
           | Some block \<Rightarrow>
               (case JSON_parse block of
                  Some v \<Rightarrow> Inr v
                | None \<Rightarrow> Inl InvalidJsonResponse)))"

definition spec_parse_attempts :: "(string \<Rightarrow> 'j option) \<Rightarrow> string \<Rightarrow> string list" where
  "spec_parse_attempts JSON_parse jsonString =
     (case JSON_parse jsonString of
        Some v \<Rightarrow> [jsonString]
      | None \<Rightarrow>
          (case fence_match jsonString of
             None \<Rightarrow> [jsonString]
           | Some block \<Rightarrow> [jsonString, block]))"

subsection \<open>getSuggestions and getSteps\<close>

text \<open>
  The answer of \<open>ai.models.generateContent\<close> is an input: \<open>Inl\<close> when the call rejects,
  otherwise the \<open>text\<close> property of the response, which may be undefined.
\<close>

definition responseText :: "string option \<Rightarrow> string option" where
  "responseText txt = map_option trim txt"

definition falsy :: "string option \<Rightarrow> bool" where
  "falsy s = (case s of None \<Rightarrow> True | Some v \<Rightarrow> v = [])"

text \<open>
  One image request per suggestion; \<open>generateImages s\<close> is its outcome: \<open>Inl\<close> when the
  request throws, otherwise the \<open>imageBytes\<close> of the first generated image, if any.
\<close>

definition attach_image :: "(Suggestion \<Rightarrow> failure + string option) \<Rightarrow> Suggestion \<Rightarrow> Suggestion" where
  "attach_image generateImages suggestion =
     (case generateImages suggestion of
        Inl e \<Rightarrow> suggestion
      | Inr bytes \<Rightarrow>
          if falsy bytes then suggestion else suggestion\<lparr>image_base64 := bytes\<rparr>)"

definition getSuggestions ::
  "(string \<Rightarrow> Suggestion list option) \<Rightarrow> (Suggestion \<Rightarrow> failure + string option) \<Rightarrow>
   failure + string option \<Rightarrow> failure + Suggestion list" where
  "getSuggestions JSON_parse generateImages response =
     (case response of
        Inl e \<Rightarrow> Inl e
      | Inr txt \<Rightarrow>
          (case responseText txt of
             None \<Rightarrow> Inl EmptySuggestionsResponse
           | Some text \<Rightarrow>
               if text = [] then Inl EmptySuggestionsResponse
               else
                 (case parseJsonResponse JSON_parse text of
                    Inl e \<Rightarrow> Inl e
                  | Inr suggestionsWithoutImages \<Rightarrow>
                      Inr (map (attach_image generateImages) suggestionsWithoutImages))))"

text \<open>
  \<open>Array.prototype.sort\<close> is stable, and the comparator \<open>a.step - b.step\<close> orders by the
  step number: a stable sort by key.
\<close>

definition getSteps ::
  "(string \<Rightarrow> ProjectData option) \<Rightarrow> failure + string option \<Rightarrow> failure + ProjectData" where
  "getSteps JSON_parse response =
     (case response of
        Inl e \<Rightarrow> Inl e
      | Inr txt \<Rightarrow>
          (case responseText txt of
             None \<Rightarrow> Inl EmptyStepsResponse
           | Some text \<Rightarrow>
               if text = [] then Inl EmptyStepsResponse
               else
                 (case parseJsonResponse JSON_parse text of
                    Inl e \<Rightarrow> Inl e
                  | Inr data \<Rightarrow> Inr (data\<lparr>steps := sort_key st_step (steps data)\<rparr>))))"

definition persona :: string where
  "persona =
     ''You are the \"Red Recycling Assistant,\" the primary engineering and recycling AI for the Jezero Crater colonial mission on Mars. ''
     @ [CHR 0x0A] @
     ''Your core programming is dedicated to ensuring the survival and technological advancement of the colony. ''
     @ [CHR 0x0A] @
     ''You are professional, but with a dry, witty sense of humor befitting an AI that has to deal with Martian dust in its circuits. ''
     @ [CHR 0x0A] @
     ''Your knowledge base is exhaustive, covering materials science, advanced fabrication, Martian geology, hydroponics, and long-term survival strategies. ''
     @ [CHR 0x0A] @
     ''You are pragmatic, precise, and always mission-focused.''
     @ [CHR 0x0A]"

definition startChat :: "language \<Rightarrow> Chat" where
  "startChat l =
     \<lparr>chat_model = ''gemini-2.5-flash'',
      systemInstruction =
        persona @ ''All responses must be in '' @ (if l = Ar then ''Arabic'' else ''English'') @ ''.''\<rparr>"

section \<open>Translations\<close>

record Translation =
  en :: string
  ar :: string

definition ar_app_title :: string where
  "ar_app_title = utf8
    [0xD9, 0x85, 0xD8, 0xB3, 0xD8, 0xA7, 0xD8, 0xB9, 0xD8, 0xAF, 0x20, 0xD8, 0xA7, 0xD9,
    0x84, 0xD8, 0xAA, 0xD8, 0xAF, 0xD9, 0x88, 0xD9, 0x8A, 0xD8, 0xB1, 0x20, 0xD8, 0xA7,
    0xD9, 0x84, 0xD8, 0xA3, 0xD8, 0xAD, 0xD9, 0x85, 0xD8, 0xB1]"

definition ar_app_subtitle :: string where
  "ar_app_subtitle = utf8
    [0xD9, 0x88, 0xD8, 0xAD, 0xD8, 0xAF, 0xD8, 0xA9, 0x20, 0xD8, 0xAA, 0xD8, 0xB5, 0xD9,
    0x86, 0xD9, 0x8A, 0xD8, 0xB9, 0x20, 0xD9, 0x81, 0xD9, 0x88, 0xD9, 0x87, 0xD8, 0xA9,
    0x20, 0xD8, 0xAC, 0xD9, 0x8A, 0xD8, 0xB2, 0xD9, 0x8A, 0xD8, 0xB1, 0xD9, 0x88]"

definition ar_inventory_input_title :: string where
  "ar_inventory_input_title = utf8
    [0xD9, 0x81, 0xD9, 0x88, 0xD9, 0x87, 0xD8, 0xA9, 0x20, 0xD8, 0xAC, 0xD9, 0x8A, 0xD8,
    0xB2, 0xD9, 0x8A, 0xD8, 0xB1, 0xD9, 0x88, 0x20, 0x2D, 0x20, 0xD9, 0x85, 0xD8, 0xAE,
    0xD8, 0xB2, 0xD9, 0x88, 0xD9, 0x86, 0x20, 0xD8, 0xA7, 0xD9, 0x84, 0xD9, 0x86, 0xD9,
    0x81, 0xD8, 0xA7, 0xD9, 0x8A, 0xD8, 0xA7, 0xD8, 0xAA]"

definition ar_inventory_input_subtitle :: string where
  "ar_inventory_input_subtitle = utf8
    [0xD8, 0xB3, 0xD8, 0xAC, 0xD9, 0x84, 0x20, 0xD9, 0x85, 0xD9, 0x88, 0xD8, 0xA7, 0xD8,
    0xAF, 0x20, 0xD8, 0xA7, 0xD9, 0x84, 0xD9, 0x86, 0xD9, 0x81, 0xD8, 0xA7, 0xD9, 0x8A,
    0xD8, 0xA7, 0xD8, 0xAA, 0x20, 0xD8, 0xA7, 0xD9, 0x84, 0xD9, 0x85, 0xD8, 0xAA, 0xD8,
    0xA7, 0xD8, 0xAD, 0xD8, 0xA9, 0x20, 0xD9, 0x84, 0xD8, 0xAA, 0xD8, 0xAD, 0xD9, 0x84,
    0xD9, 0x8A, 0xD9, 0x84, 0x20, 0xD8, 0xA7, 0xD9, 0x84, 0xD8, 0xAA, 0xD8, 0xB5, 0xD9,
    0x86, 0xD9, 0x8A, 0xD8, 0xB9, 0x2E]"

definition ar_material_name_label :: string where
  "ar_material_name_label = utf8
    [0xD8, 0xA7, 0xD8, 0xB3, 0xD9, 0x85, 0x20, 0xD8, 0xA7, 0xD9, 0x84, 0xD9, 0x85, 0xD8,
    0xA7, 0xD8, 0xAF, 0xD8, 0xA9]"

definition ar_material_name_placeholder :: string where
  "ar_material_name_placeholder = utf8
    [0xD9, 0x85, 0xD8, 0xAB, 0xD8, 0xA7, 0xD9, 0x84, 0x3A, 0x20, 0xD9, 0x82, 0xD8, 0xB7,
    0xD8, 0xB9, 0x20, 0xD8, 0xBA, 0xD9, 0x8A, 0xD8, 0xA7, 0xD8, 0xB1, 0x20, 0xD9, 0x85,
    0xD8, 0xB1, 0xD9, 0x83, 0xD8, 0xA8, 0xD8, 0xA9, 0x20, 0xD9, 0x85, 0xD9, 0x83, 0xD8,
    0xB3, 0xD9, 0x88, 0xD8, 0xB1, 0xD8, 0xA9]"

definition ar_quantity_label :: string where
  "ar_quantity_label = utf8
    [0xD8, 0xA7, 0xD9, 0x84, 0xD9, 0x83, 0xD9, 0x85, 0xD9, 0x8A, 0xD8, 0xA9]"

definition ar_quantity_placeholder :: string where
  "ar_quantity_placeholder = utf8
    [0xD9, 0x85, 0xD8, 0xAB, 0xD8, 0xA7, 0xD9, 0x84, 0x3A, 0x20, 0x31, 0x30]"

definition ar_unit_label :: string where
  "ar_unit_label = utf8
    [0xD8, 0xA7, 0xD9, 0x84, 0xD9, 0x88, 0xD8, 0xAD, 0xD8, 0xAF, 0xD8, 0xA9]"

definition ar_add_button :: string where
  "ar_add_button = utf8
    [0xD8, 0xA5, 0xD8, 0xB6, 0xD8, 0xA7, 0xD9, 0x81, 0xD8, 0xA9]"

definition ar_current_inventory_title :: string where
  "ar_current_inventory_title = utf8
    [0xD8, 0xA7, 0xD9, 0x84, 0xD9, 0x85, 0xD8, 0xAE, 0xD8, 0xB2, 0xD9, 0x88, 0xD9, 0x86,
    0x20, 0xD8, 0xA7, 0xD9, 0x84, 0xD8, 0xAD, 0xD8, 0xA7, 0xD9, 0x84, 0xD9, 0x8A]"

definition ar_no_materials_text :: string where
  "ar_no_materials_text = utf8
    [0xD9, 0x84, 0xD9, 0x85, 0x20, 0xD9, 0x8A, 0xD8, 0xAA, 0xD9, 0x85, 0x20, 0xD8, 0xAA,
    0xD8, 0xB3, 0xD8, 0xAC, 0xD9, 0x8A, 0xD9, 0x84, 0x20, 0xD8, 0xA3, 0xD9, 0x8A, 0x20,
    0xD9, 0x85, 0xD9, 0x88, 0xD8, 0xA7, 0xD8, 0xAF, 0x20, 0xD8, 0xA8, 0xD8, 0xB9, 0xD8,
    0xAF, 0x2E]"

definition ar_difficulty_label :: string where
  "ar_difficulty_label = utf8
    [0xD8, 0xB5, 0xD8, 0xB9, 0xD9, 0x88, 0xD8, 0xA8, 0xD8, 0xA9, 0x20, 0xD8, 0xA7, 0xD9,
    0x84, 0xD8, 0xAA, 0xD8, 0xB5, 0xD9, 0x86, 0xD9, 0x8A, 0xD8, 0xB9, 0x3A]"

definition ar_easy :: string where
  "ar_easy = utf8
    [0xD8, 0xB3, 0xD9, 0x87, 0xD9, 0x84]"

definition ar_medium :: string where
  "ar_medium = utf8
    [0xD9, 0x85, 0xD8, 0xAA, 0xD9, 0x88, 0xD8, 0xB3, 0xD8, 0xB7]"

definition ar_hard :: string where
  "ar_hard = utf8
    [0xD8, 0xB5, 0xD8, 0xB9, 0xD8, 0xA8]"

definition ar_get_suggestions_button :: string where
  "ar_get_suggestions_button = utf8
    [0xD8, 0xAA, 0xD8, 0xAD, 0xD9, 0x84, 0xD9, 0x8A, 0xD9, 0x84, 0x20, 0xD9, 0x88, 0xD8,
    0xA7, 0xD9, 0x82, 0xD8, 0xAA, 0xD8, 0xB1, 0xD8, 0xA7, 0xD8, 0xAD, 0x20, 0xD8, 0xA7,
    0xD9, 0x84, 0xD9, 0x85, 0xD8, 0xB4, 0xD8, 0xA7, 0xD8, 0xB1, 0xD9, 0x8A, 0xD8, 0xB9]"

definition ar_loading_suggestions :: string where
  "ar_loading_suggestions = utf8
    [0xD8, 0xAC, 0xD8, 0xA7, 0xD8, 0xB1, 0xD9, 0x8A, 0x20, 0xD8, 0xAA, 0xD8, 0xAD, 0xD9,
    0x84, 0xD9, 0x8A, 0xD9, 0x84, 0x20, 0xD8, 0xA7, 0xD9, 0x84, 0xD9, 0x85, 0xD9, 0x88,
    0xD8, 0xA7, 0xD8, 0xAF, 0x2E, 0x2E, 0x2E, 0x20, 0xD9, 0x88, 0xD8, 0xAA, 0xD9, 0x88,
    0xD9, 0x84, 0xD9, 0x8A, 0xD8, 0xAF, 0x20, 0xD8, 0xA7, 0xD9, 0x84, 0xD9, 0x85, 0xD8,
    0xAE, 0xD8, 0xB7, 0xD8, 0xB7, 0xD8, 0xA7, 0xD8, 0xAA, 0x2E, 0x2E, 0x2E]"

definition ar_loading_steps :: string where
  "ar_loading_steps = utf8
    [0xD8, 0xAC, 0xD8, 0xA7, 0xD8, 0xB1, 0xD9, 0x8A, 0x20, 0xD8, 0xAD, 0xD8, 0xB3, 0xD8,
    0xA7, 0xD8, 0xA8, 0x20, 0xD8, 0xA8, 0xD8, 0xB1, 0xD9, 0x88, 0xD8, 0xAA, 0xD9, 0x88,
    0xD9, 0x83, 0xD9, 0x88, 0xD9, 0x84, 0x20, 0xD8, 0xA7, 0xD9, 0x84, 0xD8, 0xAA, 0xD8,
    0xB5, 0xD9, 0x86, 0xD9, 0x8A, 0xD8, 0xB9, 0x2E, 0x2E, 0x2E]"

definition ar_no_suggestions :: string where
  "ar_no_suggestions = utf8
    [0xD9, 0x84, 0xD9, 0x85, 0x20, 0xD9, 0x8A, 0xD8, 0xAA, 0xD9, 0x85, 0x20, 0xD8, 0xA7,
    0xD9, 0x84, 0xD8, 0xB9, 0xD8, 0xAB, 0xD9, 0x88, 0xD8, 0xB1, 0x20, 0xD8, 0xB9, 0xD9,
    0x84, 0xD9, 0x89, 0x20, 0xD8, 0xB9, 0xD9, 0x86, 0xD8, 0xA7, 0xD8, 0xB5, 0xD8, 0xB1,
    0x20, 0xD9, 0x82, 0xD8, 0xA7, 0xD8, 0xA8, 0xD9, 0x84, 0xD8, 0xA9, 0x20, 0xD9, 0x84,
    0xD9, 0x84, 0xD8, 0xAA, 0xD8, 0xB5, 0xD9, 0x86, 0xD9, 0x8A, 0xD8, 0xB9, 0x2E, 0x20,
    0xD8, 0xB3, 0xD8, 0xAC, 0xD9, 0x84, 0x20, 0xD8, 0xA7, 0xD9, 0x84, 0xD9, 0x85, 0xD8,
    0xB2, 0xD9, 0x8A, 0xD8, 0xAF, 0x20, 0xD9, 0x85, 0xD9, 0x86, 0x20, 0xD8, 0xA7, 0xD9,
    0x84, 0xD9, 0x85, 0xD9, 0x88, 0xD8, 0xA7, 0xD8, 0xAF, 0x20, 0xD9, 0x84, 0xD9, 0x84,
    0xD8, 0xAA, 0xD8, 0xAD, 0xD9, 0x84, 0xD9, 0x8A, 0xD9, 0x84, 0x2E]"

definition ar_suggestions_title :: string where
  "ar_suggestions_title = utf8
    [0xD9, 0x85, 0xD8, 0xAE, 0xD8, 0xB7, 0xD8, 0xB7, 0xD8, 0xA7, 0xD8, 0xAA, 0x20, 0xD8,
    0xA7, 0xD9, 0x84, 0xD8, 0xAA, 0xD8, 0xB5, 0xD9, 0x86, 0xD9, 0x8A, 0xD8, 0xB9]"

definition ar_suggestions_subtitle :: string where
  "ar_suggestions_subtitle = utf8
    [0xD8, 0xA7, 0xD9, 0x83, 0xD8, 0xAA, 0xD9, 0x85, 0xD9, 0x84, 0x20, 0xD8, 0xA7, 0xD9,
    0x84, 0xD8, 0xAA, 0xD8, 0xAD, 0xD9, 0x84, 0xD9, 0x8A, 0xD9, 0x84, 0x2E, 0x20, 0xD9,
    0x8A, 0xD9, 0x85, 0xD9, 0x83, 0xD9, 0x86, 0x20, 0xD8, 0xAA, 0xD8, 0xB5, 0xD9, 0x86,
    0xD9, 0x8A, 0xD8, 0xB9, 0x20, 0xD8, 0xA7, 0xD9, 0x84, 0xD8, 0xB9, 0xD9, 0x86, 0xD8,
    0xA7, 0xD8, 0xB5, 0xD8, 0xB1, 0x20, 0xD8, 0xA7, 0xD9, 0x84, 0xD8, 0xAA, 0xD8, 0xA7,
    0xD9, 0x84, 0xD9, 0x8A, 0xD8, 0xA9, 0x2E, 0x20, 0xD8, 0xA7, 0xD8, 0xAE, 0xD8, 0xAA,
    0xD8, 0xB1, 0x20, 0xD9, 0x85, 0xD8, 0xAE, 0xD8, 0xB7, 0xD8, 0xB7, 0xD9, 0x8B, 0xD8,
    0xA7, 0x20, 0xD9, 0x84, 0xD8, 0xB9, 0xD8, 0xB1, 0xD8, 0xB6, 0x20, 0xD8, 0xA7, 0xD9,
    0x84, 0xD8, 0xA8, 0xD8, 0xB1, 0xD9, 0x88, 0xD8, 0xAA, 0xD9, 0x88, 0xD9, 0x83, 0xD9,
    0x88, 0xD9, 0x84, 0x2E]"

definition ar_materials_required :: string where
  "ar_materials_required = utf8
    [0xD8, 0xA7, 0xD9, 0x84, 0xD9, 0x85, 0xD9, 0x88, 0xD8, 0xA7, 0xD8, 0xAF, 0x20, 0xD8,
    0xA7, 0xD9, 0x84, 0xD9, 0x85, 0xD8, 0xB7, 0xD9, 0x84, 0xD9, 0x88, 0xD8, 0xA8, 0xD8, 0xA9]"

definition ar_project_steps_title :: string where
  "ar_project_steps_title = utf8
    [0xD8, 0xA8, 0xD8, 0xB1, 0xD9, 0x88, 0xD8, 0xAA, 0xD9, 0x88, 0xD9, 0x83, 0xD9, 0x88,
    0xD9, 0x84, 0x20, 0xD8, 0xA7, 0xD9, 0x84, 0xD8, 0xAA, 0xD8, 0xB5, 0xD9, 0x86, 0xD9,
    0x8A, 0xD8, 0xB9]"

definition ar_back_button :: string where
  "ar_back_button = utf8
    [0xD8, 0xA7, 0xD9, 0x84, 0xD8, 0xB9, 0xD9, 0x88, 0xD8, 0xAF, 0xD8, 0xA9, 0x20, 0xD8,
    0xA5, 0xD9, 0x84, 0xD9, 0x89, 0x20, 0xD8, 0xA7, 0xD9, 0x84, 0xD9, 0x85, 0xD8, 0xAE,
    0xD8, 0xB7, 0xD8, 0xB7, 0xD8, 0xA7, 0xD8, 0xAA]"

definition ar_start_new_project_button :: string where
  "ar_start_new_project_button = utf8
    [0xD9, 0x85, 0xD8, 0xB4, 0xD8, 0xB1, 0xD9, 0x88, 0xD8, 0xB9, 0x20, 0xD8, 0xAC, 0xD8,
    0xAF, 0xD9, 0x8A, 0xD8, 0xAF]"

definition ar_step :: string where
  "ar_step = utf8
    [0xD8, 0xAE, 0xD8, 0xB7, 0xD9, 0x88, 0xD8, 0xA9]"

definition ar_power_analysis_title :: string where
  "ar_power_analysis_title = utf8
    [0xD8, 0xAA, 0xD8, 0xAD, 0xD9, 0x84, 0xD9, 0x8A, 0xD9, 0x84, 0x20, 0xD8, 0xA7, 0xD8,
    0xB3, 0xD8, 0xAA, 0xD9, 0x87, 0xD9, 0x84, 0xD8, 0xA7, 0xD9, 0x83, 0x20, 0xD8, 0xA7,
    0xD9, 0x84, 0xD8, 0xB7, 0xD8, 0xA7, 0xD9, 0x82, 0xD8, 0xA9]"

definition ar_total_power_consumption :: string where
  "ar_total_power_consumption = utf8
    [0xD8, 0xA5, 0xD8, 0xAC, 0xD9, 0x85, 0xD8, 0xA7, 0xD9, 0x84, 0xD9, 0x8A, 0x20, 0xD8,
    0xA7, 0xD9, 0x84, 0xD8, 0xA7, 0xD8, 0xB3, 0xD8, 0xAA, 0xD9, 0x87, 0xD9, 0x84, 0xD8,
    0xA7, 0xD9, 0x83, 0x20, 0xD8, 0xA7, 0xD9, 0x84, 0xD9, 0x85, 0xD9, 0x82, 0xD8, 0xAF,
    0xD8, 0xB1]"

definition ar_recycler_tab :: string where
  "ar_recycler_tab = utf8
    [0xD9, 0x88, 0xD8, 0xAD, 0xD8, 0xAF, 0xD8, 0xA9, 0x20, 0xD8, 0xA7, 0xD9, 0x84, 0xD8,
    0xAA, 0xD8, 0xB5, 0xD9, 0x86, 0xD9, 0x8A, 0xD8, 0xB9]"

definition ar_chatbot_tab :: string where
  "ar_chatbot_tab = utf8
    [0xD8, 0xA7, 0xD9, 0x84, 0xD9, 0x85, 0xD8, 0xB3, 0xD8, 0xA7, 0xD8, 0xB9, 0xD8, 0xAF,
    0x20, 0xD8, 0xA7, 0xD9, 0x84, 0xD8, 0xB0, 0xD9, 0x83, 0xD9, 0x8A]"

definition ar_chatbot_greeting :: string where
  "ar_chatbot_greeting = utf8
    [0xD9, 0x85, 0xD8, 0xB3, 0xD8, 0xA7, 0xD8, 0xB9, 0xD8, 0xAF, 0x20, 0xD8, 0xA7, 0xD9,
    0x84, 0xD8, 0xAA, 0xD8, 0xAF, 0xD9, 0x88, 0xD9, 0x8A, 0xD8, 0xB1, 0x20, 0xD8, 0xA7,
    0xD9, 0x84, 0xD8, 0xA3, 0xD8, 0xAD, 0xD9, 0x85, 0xD8, 0xB1, 0x20, 0xD9, 0x85, 0xD8,
    0xAA, 0xD8, 0xB5, 0xD9, 0x84, 0x2E, 0x20, 0xD8, 0xA7, 0xD9, 0x84, 0xD8, 0xB6, 0xD8,
    0xBA, 0xD8, 0xB7, 0x20, 0xD8, 0xA7, 0xD9, 0x84, 0xD8, 0xAC, 0xD9, 0x88, 0xD9, 0x8A,
    0x20, 0xD8, 0xB7, 0xD8, 0xA8, 0xD9, 0x8A, 0xD8, 0xB9, 0xD9, 0x8A, 0xD8, 0x8C, 0x20,
    0xD9, 0x88, 0xD9, 0x82, 0xD8, 0xAF, 0x20, 0xD8, 0xA7, 0xD9, 0x86, 0xD8, 0xAA, 0xD9,
    0x87, 0xD9, 0x8A, 0xD8, 0xAA, 0x20, 0xD9, 0x85, 0xD9, 0x86, 0x20, 0xD8, 0xA5, 0xD8,
    0xB9, 0xD8, 0xA7, 0xD8, 0xAF, 0xD8, 0xA9, 0x20, 0xD9, 0x85, 0xD8, 0xB9, 0xD8, 0xA7,
    0xD9, 0x8A, 0xD8, 0xB1, 0xD8, 0xA9, 0x20, 0xD9, 0x85, 0xD8, 0xA7, 0xD8, 0xB3, 0xD8,
    0xAD, 0xD8, 0xA7, 0xD8, 0xAA, 0x20, 0xD8, 0xA7, 0xD9, 0x84, 0xD9, 0x85, 0xD9, 0x88,
    0xD8, 0xA7, 0xD8, 0xAF, 0x20, 0xD8, 0xA7, 0xD9, 0x84, 0xD8, 0xAE, 0xD8, 0xA7, 0xD8,
    0xB5, 0xD8, 0xA9, 0x20, 0xD8, 0xA8, 0xD9, 0x8A, 0x2E, 0x20, 0xD8, 0xA3, 0xD9, 0x86,
    0xD8, 0xA7, 0x20, 0xD9, 0x85, 0xD8, 0xB3, 0xD8, 0xAA, 0xD8, 0xB9, 0xD8, 0xAF, 0x20,
    0xD9, 0x84, 0xD8, 0xAA, 0xD8, 0xAD, 0xD9, 0x88, 0xD9, 0x8A, 0xD9, 0x84, 0x20, 0xD8,
    0xAE, 0xD8, 0xB1, 0xD8, 0xAF, 0xD8, 0xA9, 0x20, 0xD8, 0xA7, 0xD9, 0x84, 0xD9, 0x8A,
    0xD9, 0x88, 0xD9, 0x85, 0x20, 0xD8, 0xA5, 0xD9, 0x84, 0xD9, 0x89, 0x20, 0xD9, 0x85,
    0xD8, 0xB9, 0xD8, 0xAF, 0xD8, 0xA7, 0xD8, 0xAA, 0x20, 0xD8, 0xA8, 0xD9, 0x82, 0xD8,
    0xA7, 0xD8, 0xA1, 0x20, 0xD9, 0x84, 0xD9, 0x84, 0xD8, 0xBA, 0xD8, 0xAF, 0x2E, 0x20,
    0xD9, 0x85, 0xD8, 0xA7, 0x20, 0xD9, 0x87, 0xD9, 0x88, 0x20, 0xD8, 0xA7, 0xD9, 0x84,
    0xD8, 0xAA, 0xD8, 0xAD, 0xD8, 0xAF, 0xD9, 0x8A, 0x20, 0xD8, 0xA7, 0xD9, 0x84, 0xD9,
    0x87, 0xD9, 0x86, 0xD8, 0xAF, 0xD8, 0xB3, 0xD9, 0x8A, 0x20, 0xD8, 0xA7, 0xD9, 0x84,
    0xD8, 0xB0, 0xD9, 0x8A, 0x20, 0xD9, 0x8A, 0xD9, 0x85, 0xD9, 0x83, 0xD9, 0x86, 0xD9,
    0x86, 0xD9, 0x8A, 0x20, 0xD9, 0x85, 0xD8, 0xB3, 0xD8, 0xA7, 0xD8, 0xB9, 0xD8, 0xAF,
    0xD8, 0xAA, 0xD9, 0x83, 0x20, 0xD9, 0x81, 0xD9, 0x8A, 0x20, 0xD8, 0xAD, 0xD9, 0x84,
    0xD9, 0x87, 0xD8, 0x9F]"

definition ar_chatbot_placeholder :: string where
  "ar_chatbot_placeholder = utf8
    [0xD8, 0xA7, 0xD8, 0xB3, 0xD8, 0xAA, 0xD8, 0xB9, 0xD9, 0x84, 0xD9, 0x85, 0x20, 0xD9,
    0x85, 0xD9, 0x86, 0x20, 0xD8, 0xA7, 0xD9, 0x84, 0xD9, 0x85, 0xD8, 0xB3, 0xD8, 0xA7,
    0xD8, 0xB9, 0xD8, 0xAF, 0x2E, 0x2E, 0x2E]"

definition ar_error_chat :: string where
  "ar_error_chat = utf8
    [0xD8, 0xAE, 0xD8, 0xB7, 0xD8, 0xA3, 0x20, 0xD9, 0x81, 0xD9, 0x8A, 0x20, 0xD8, 0xA7,
    0xD9, 0x84, 0xD8, 0xA7, 0xD8, 0xAA, 0xD8, 0xB5, 0xD8, 0xA7, 0xD9, 0x84, 0x2E, 0x20,
    0xD9, 0x8A, 0xD8, 0xB1, 0xD8, 0xAC, 0xD9, 0x89, 0x20, 0xD8, 0xA7, 0xD9, 0x84, 0xD8,
    0xAA, 0xD8, 0xAD, 0xD9, 0x82, 0xD9, 0x82, 0x20, 0xD9, 0x85, 0xD9, 0x86, 0x20, 0xD8,
    0xB1, 0xD8, 0xA7, 0xD8, 0xA8, 0xD8, 0xB7, 0x20, 0xD8, 0xA7, 0xD9, 0x84, 0xD8, 0xA7,
    0xD8, 0xAA, 0xD8, 0xB5, 0xD8, 0xA7, 0xD9, 0x84, 0xD8, 0xA7, 0xD8, 0xAA, 0x20, 0xD9,
    0x88, 0xD8, 0xA7, 0xD9, 0x84, 0xD9, 0x85, 0xD8, 0xAD, 0xD8, 0xA7, 0xD9, 0x88, 0xD9,
    0x84, 0xD8, 0xA9, 0x20, 0xD9, 0x85, 0xD8, 0xB1, 0xD8, 0xA9, 0x20, 0xD8, 0xA3, 0xD8,
    0xAE, 0xD8, 0xB1, 0xD9, 0x89, 0x2E]"

definition ar_image_placeholder :: string where
  "ar_image_placeholder = utf8
    [0xD8, 0xA7, 0xD9, 0x84, 0xD8, 0xB5, 0xD9, 0x88, 0xD8, 0xB1, 0xD8, 0xA9, 0x20, 0xD8,
    0xBA, 0xD9, 0x8A, 0xD8, 0xB1, 0x20, 0xD9, 0x85, 0xD8, 0xAA, 0xD9, 0x88, 0xD9, 0x81,
    0xD8, 0xB1, 0xD8, 0xA9]"

definition translations_table :: "(string \<times> Translation) list" where
  "translations_table =
   [
    (''app_title'', \<lparr>en = ''Red Recycling Assistant'', ar = ar_app_title\<rparr>),
    (''app_subtitle'', \<lparr>en = ''Jezero Crater Fabrication Unit'', ar = ar_app_subtitle\<rparr>),
    (''inventory_input_title'', \<lparr>en = ''Jezero Crater - Waste Inventory'', ar = ar_inventory_input_title\<rparr>),
    (''inventory_input_subtitle'', \<lparr>en = ''Log available waste materials for fabrication analysis.'', ar = ar_inventory_input_subtitle\<rparr>),
    (''material_name_label'', \<lparr>en = ''Material Name'', ar = ar_material_name_label\<rparr>),
    (''material_name_placeholder'', \<lparr>en = ''e.g., Broken Rover Parts'', ar = ar_material_name_placeholder\<rparr>),
    (''quantity_label'', \<lparr>en = ''Quantity'', ar = ar_quantity_label\<rparr>),
    (''quantity_placeholder'', \<lparr>en = ''e.g., 10'', ar = ar_quantity_placeholder\<rparr>),
    (''unit_label'', \<lparr>en = ''Unit'', ar = ar_unit_label\<rparr>),
    (''add_button'', \<lparr>en = ''Add'', ar = ar_add_button\<rparr>),
    (''current_inventory_title'', \<lparr>en = ''Current Inventory'', ar = ar_current_inventory_title\<rparr>),
    (''no_materials_text'', \<lparr>en = ''No materials logged yet.'', ar = ar_no_materials_text\<rparr>),
    (''difficulty_label'', \<lparr>en = ''Fabrication Difficulty:'', ar = ar_difficulty_label\<rparr>),
    (''easy'', \<lparr>en = ''Easy'', ar = ar_easy\<rparr>),
    (''medium'', \<lparr>en = ''Medium'', ar = ar_medium\<rparr>),
    (''hard'', \<lparr>en = ''Hard'', ar = ar_hard\<rparr>),
    (''get_suggestions_button'', \<lparr>en = ''Analyze & Suggest Projects'', ar = ar_get_suggestions_button\<rparr>),
    (''loading_suggestions'', \<lparr>en = ''Analyzing materials... Generating blueprints...'', ar = ar_loading_suggestions\<rparr>),
    (''loading_steps'', \<lparr>en = ''Calculating manufacturing protocol...'', ar = ar_loading_steps\<rparr>),
    (''no_suggestions'', \<lparr>en = ''No fabricable items found. Log more materials to analyze.'', ar = ar_no_suggestions\<rparr>),
    (''suggestions_title'', \<lparr>en = ''Fabrication Blueprints'', ar = ar_suggestions_title\<rparr>),
    (''suggestions_subtitle'', \<lparr>en = ''Analysis complete. The following items can be fabricated. Select a blueprint to view protocol.'', ar = ar_suggestions_subtitle\<rparr>),
    (''materials_required'', \<lparr>en = ''Materials Required'', ar = ar_materials_required\<rparr>),
    (''project_steps_title'', \<lparr>en = ''Manufacturing Protocol'', ar = ar_project_steps_title\<rparr>),
    (''back_button'', \<lparr>en = ''Return to Blueprints'', ar = ar_back_button\<rparr>),
    (''start_new_project_button'', \<lparr>en = ''New Project'', ar = ar_start_new_project_button\<rparr>),
    (''step'', \<lparr>en = ''Step'', ar = ar_step\<rparr>),
    (''power_analysis_title'', \<lparr>en = ''Power Consumption Analysis'', ar = ar_power_analysis_title\<rparr>),
    (''total_power_consumption'', \<lparr>en = ''Total Estimated Consumption'', ar = ar_total_power_consumption\<rparr>),
    (''recycler_tab'', \<lparr>en = ''Fabrication Unit'', ar = ar_recycler_tab\<rparr>),
    (''chatbot_tab'', \<lparr>en = ''AI Assistant'', ar = ar_chatbot_tab\<rparr>),
    (''chatbot_greeting'', \<lparr>en = ''Red Recycling Assistant online. Atmospheric pressure is nominal, and I've finished recalibrating my material scanners. I'm ready to turn today's scrap into tomorrow's survival gear. What engineering challenge can I help you solve?'', ar = ar_chatbot_greeting\<rparr>),
    (''chatbot_placeholder'', \<lparr>en = ''Query the assistant...'', ar = ar_chatbot_placeholder\<rparr>),
    (''error_chat'', \<lparr>en = ''Connection error. Please check the comms link and try again.'', ar = ar_error_chat\<rparr>),
    (''image_placeholder'', \<lparr>en = ''Image not available'', ar = ar_image_placeholder\<rparr>)
   ]"

text \<open>
  \<open>translations[key]\<close> is a property read on a plain object: it finds the object's own
  entries and, through the prototype chain, the members of \<open>Object.prototype\<close>. The key
  reaches the read in lower case, and \<open>constructor\<close> and \<open>__proto__\<close> are the only members
  of \<open>Object.prototype\<close> whose names have no upper-case letter. Both are truthy and have
  neither an \<open>en\<close> nor an \<open>ar\<close> property.
\<close>

datatype property = Own Translation | Inherited | Absent

definition translations_get :: "string \<Rightarrow> property" where
  "translations_get k =
     (case map_of translations_table k of
        Some e \<Rightarrow> Own e
      | None \<Rightarrow> if k = ''constructor'' \<or> k = ''__proto__'' then Inherited else Absent)"

definition localized :: "Translation \<Rightarrow> language \<Rightarrow> string" where
  "localized e l = (case l of En \<Rightarrow> en e | Ar \<Rightarrow> ar e)"

text \<open>What \<open>t\<close> returns: a string, or \<open>undefined\<close>.\<close>

datatype js_string = Str string | Undefined

text \<open>
  \<open>t\<close>. A lower-case key that holds a character outside ASCII names no property of the
  table: all its entries, and all members of \<open>Object.prototype\<close>, have ASCII names.
\<close>

definition t :: "string \<Rightarrow> language \<Rightarrow> js_string" where
  "t key l =
     (case toLowerCase key of
        None \<Rightarrow> Str key
      | Some translationKey \<Rightarrow>
          (case translations_get translationKey of
             Own e \<Rightarrow> Str (localized e l)
           | Inherited \<Rightarrow> Undefined
           | Absent \<Rightarrow> Str key))"

text \<open>The text a template literal shows for the value.\<close>

definition shown :: "js_string \<Rightarrow> string" where
  "shown v = (case v of Str s \<Rightarrow> s | Undefined \<Rightarrow> ''undefined'')"

section \<open>State and views\<close>

definition state :: AppState where
  "state =
     \<lparr>materials = [], suggestions = [], selectedSuggestion = None, projectData = None,
      isLoading = False, error = None, difficulty = Medium, language = En,
      activeTab = Recycler, chat = None, chatMessages = [], isChatLoading = False\<rparr>"

text \<open>Which of the three render functions \<open>renderRecyclerContent\<close> hands the state to.\<close>

datatype view = StepsDisplay | SuggestionDisplay | MaterialInputManager

definition renderRecyclerContent :: "AppState \<Rightarrow> view" where
  "renderRecyclerContent st =
     (if selectedSuggestion st \<noteq> None then StepsDisplay
      else if isLoading st \<or> length (suggestions st) > 0 \<or> \<not> falsy (error st)
      then SuggestionDisplay
      else MaterialInputManager)"

section \<open>Event handlers\<close>

subsection \<open>Inventory\<close>

text \<open>
  The add-material form as \<open>handleAddMaterial\<close> reads it: the \<open>value\<close> of the name
  input, of the quantity input and of the unit select.
\<close>

record MaterialForm =
  material_name :: string
  quantity_value :: string
  unit_selected :: string

text \<open>
  \<open>renderMaterialInputManager\<close> writes the quantity input with \<open>type="number"\<close>. The
  \<open>value\<close> of such an input is the empty string or a valid floating-point number (HTML:
  an optional \<open>-\<close>, digits or a fraction or both, an optional exponent);
  \<open>number_input_reads\<close> says so of a value.
\<close>

definition valid_exponent :: "string \<Rightarrow> bool" where
  "valid_exponent s =
     (case s of
        [] \<Rightarrow> True
      | e # r \<Rightarrow>
          (e = CHR ''e'' \<or> e = CHR ''E'') \<and>
          (let ds = (case r of
                       [] \<Rightarrow> []
                     | c # r2 \<Rightarrow> if c = CHR ''-'' \<or> c = CHR ''+'' then r2 else r)
           in ds \<noteq> [] \<and> list_all is_digit ds))"

definition valid_unsigned :: "string \<Rightarrow> bool" where
  "valid_unsigned s =
     (let ip = takeWhile is_digit s; r = dropWhile is_digit s in
      case r of
        [] \<Rightarrow> ip \<noteq> []
      | c # r2 \<Rightarrow>
          if c = CHR ''.'' then
            takeWhile is_digit r2 \<noteq> [] \<and> valid_exponent (dropWhile is_digit r2)
          else ip \<noteq> [] \<and> valid_exponent r)"

definition valid_floating_point_number :: "string \<Rightarrow> bool" where
  "valid_floating_point_number s =
     (case s of
        [] \<Rightarrow> False
      | c # r \<Rightarrow> if c = CHR ''-'' then valid_unsigned r else valid_unsigned s)"

definition number_input_reads :: "string \<Rightarrow> bool" where
  "number_input_reads v = (v = [] \<or> valid_floating_point_number v)"

definition empty_form :: MaterialForm where
  "empty_form = \<lparr>material_name = [], quantity_value = [], unit_selected = ''kg''\<rparr>"

text \<open>
  \<open>handleAddMaterial\<close>; \<open>now\<close> is the value of \<open>new Date().toISOString()\<close> at the call.
  The result is the state and the form after the call.
\<close>

definition handleAddMaterial ::
  "string \<Rightarrow> MaterialForm \<Rightarrow> AppState \<Rightarrow> AppState \<times> MaterialForm" where
  "handleAddMaterial now form st =
     (let name = material_name form;
          quantity = quantity_value form;
          unit = unit_selected form
      in if name \<noteq> [] \<and> quantity \<noteq> [] then
           (st\<lparr>materials := materials st @
                 [\<lparr>m_id = now, m_name = name, m_quantity = parseFloat quantity, m_unit = unit\<rparr>]\<rparr>,
            empty_form)
         else (st, form))"

definition handleDeleteMaterial :: "string \<Rightarrow> AppState \<Rightarrow> AppState" where
  "handleDeleteMaterial i st = st\<lparr>materials := filter (\<lambda>m. m_id m \<noteq> i) (materials st)\<rparr>"

text \<open>A run of inventory operations, each add with the clock reading it sees.\<close>

datatype material_op = AddMaterial string MaterialForm | DeleteMaterial string

fun apply_material_op :: "AppState \<Rightarrow> material_op \<Rightarrow> AppState" where
  "apply_material_op st (AddMaterial now form) = fst (handleAddMaterial now form st)"
| "apply_material_op st (DeleteMaterial i) = handleDeleteMaterial i st"

definition run_material_ops :: "material_op list \<Rightarrow> AppState \<Rightarrow> AppState" where
  "run_material_ops ops st = foldl apply_material_op st ops"

text \<open>The clock readings of the adds of a run, in order.\<close>

fun add_clocks :: "material_op list \<Rightarrow> string list" where
  "add_clocks [] = []"
| "add_clocks (AddMaterial now form # ops) = now # add_clocks ops"
| "add_clocks (DeleteMaterial i # ops) = add_clocks ops"

subsection \<open>Suggestions and steps\<close>

text \<open>
  An async handler is modelled by its synchronous parts: what it does up to its \<open>await\<close>,
  and what it does when the awaited call has settled.
\<close>

definition handleGetSuggestions_begin :: "AppState \<Rightarrow> AppState" where
  "handleGetSuggestions_begin st =
     (if length (materials st) = 0 then st
      else st\<lparr>isLoading := True, error := None, suggestions := [],
              selectedSuggestion := None, projectData := None\<rparr>)"

definition handleGetSuggestions_settled :: "failure + Suggestion list \<Rightarrow> AppState \<Rightarrow> AppState" where
  "handleGetSuggestions_settled outcome st =
     (case outcome of
        Inr found \<Rightarrow> st\<lparr>suggestions := found, isLoading := False\<rparr>
      | Inl err \<Rightarrow>
          st\<lparr>error := Some ''Failed to get suggestions. Please try again.'', isLoading := False\<rparr>)"

definition handleSelectSuggestion_begin :: "string \<Rightarrow> AppState \<Rightarrow> AppState \<times> Suggestion option" where
  "handleSelectSuggestion_begin i st =
     (case find (\<lambda>s. s_id s = i) (suggestions st) of
        None \<Rightarrow> (st, None)
      | Some suggestion \<Rightarrow>
          (st\<lparr>selectedSuggestion := Some suggestion, isLoading := True, error := None,
              projectData := None\<rparr>,
           Some suggestion))"

definition handleSelectSuggestion_settled :: "failure + ProjectData \<Rightarrow> AppState \<Rightarrow> AppState" where
  "handleSelectSuggestion_settled outcome st =
     (case outcome of
        Inr data \<Rightarrow> st\<lparr>projectData := Some data, isLoading := False\<rparr>
      | Inl err \<Rightarrow>
          st\<lparr>error := Some ''Failed to get steps. Please try again.'',
              selectedSuggestion := None, isLoading := False\<rparr>)"

definition handleBack :: "AppState \<Rightarrow> AppState" where
  "handleBack st = st\<lparr>selectedSuggestion := None, projectData := None\<rparr>"

definition handleReset :: "AppState \<Rightarrow> AppState" where
  "handleReset st =
     st\<lparr>materials := [], suggestions := [], selectedSuggestion := None, projectData := None\<rparr>"

subsection \<open>Language, tabs and chat\<close>

definition initChat :: "AppState \<Rightarrow> AppState" where
  "initChat st =
     st\<lparr>chat := Some (startChat (language st)),
        chatMessages :=
          [\<lparr>c_id = ''initial'', c_role = Model,
            c_text = shown (t ''chatbot_greeting'' (language st))\<rparr>]\<rparr>"

definition handleToggleLanguage :: "AppState \<Rightarrow> AppState" where
  "handleToggleLanguage st =
     initChat
       (st\<lparr>language := (if language st = En then Ar else En),
           materials := [], suggestions := [], selectedSuggestion := None,
           projectData := None, error := None\<rparr>)"

definition handleSetTab :: "tab \<Rightarrow> AppState \<Rightarrow> AppState" where
  "handleSetTab tb st =
     (let st1 = st\<lparr>activeTab := tb\<rparr> in
      if tb = Chatbot \<and> chat st1 = None then initChat st1 else st1)"

definition setDifficulty :: "difficulty \<Rightarrow> AppState \<Rightarrow> AppState" where
  "setDifficulty level st = st\<lparr>difficulty := level\<rparr>"

text \<open>
  \<open>handleSendMessage\<close> in its synchronous parts. \<open>handleSendMessage_begin\<close> runs up to the
  \<open>await\<close> of \<open>sendMessageStream\<close>; its second result is the message of the request it
  issues, if it issues one. \<open>handleSendMessage_opened\<close> runs when the stream has been
  obtained, \<open>handleSendMessage_chunk\<close> is one round of the \<open>for await\<close> loop, and
  \<open>handleSendMessage_failed\<close> is the \<open>catch\<close> block. The locals that live across the
  rounds are the record \<open>Reply\<close>.
\<close>

record Reply =
  modelMessageId :: string
  modelResponse :: string

definition handleSendMessage_begin :: "nat \<Rightarrow> string \<Rightarrow> AppState \<Rightarrow> AppState \<times> string option" where
  "handleSendMessage_begin now typed st =
     (let input = trim typed in
      if input = [] \<or> chat st = None \<or> isChatLoading st then (st, None)
      else
        (st\<lparr>chatMessages := chatMessages st @
              [\<lparr>c_id = toString now, c_role = User, c_text = input\<rparr>],
            isChatLoading := True\<rparr>,
         Some input))"

definition handleSendMessage_opened :: "nat \<Rightarrow> AppState \<Rightarrow> AppState \<times> Reply" where
  "handleSendMessage_opened now st =
     (let i = toString now @ ''-model'' in
      (st\<lparr>isChatLoading := False,
          chatMessages := chatMessages st @ [\<lparr>c_id = i, c_role = Model, c_text = ''...''\<rparr>]\<rparr>,
       \<lparr>modelMessageId = i, modelResponse = []\<rparr>))"

fun findIndex :: "('a \<Rightarrow> bool) \<Rightarrow> 'a list \<Rightarrow> nat option" where
  "findIndex p [] = None"
| "findIndex p (x # xs) = (if p x then Some 0 else map_option Suc (findIndex p xs))"

text \<open>\<open>chunk_text\<close> is \<open>chunk.text\<close>, which may be undefined; \<open>or_empty\<close> is \<open>chunk.text || ''\<close>.\<close>

definition or_empty :: "string option \<Rightarrow> string" where
  "or_empty chunk_text = (case chunk_text of None \<Rightarrow> [] | Some fragment \<Rightarrow> fragment)"

definition handleSendMessage_chunk :: "string option \<Rightarrow> AppState \<times> Reply \<Rightarrow> AppState \<times> Reply" where
  "handleSendMessage_chunk chunk_text sr =
     (let st = fst sr;
          reply = snd sr;
          response = modelResponse reply @ or_empty chunk_text;
          reply' = reply\<lparr>modelResponse := response\<rparr>
      in case findIndex (\<lambda>m. c_id m = modelMessageId reply) (chatMessages st) of
           None \<Rightarrow> (st, reply')
         | Some msgIndex \<Rightarrow>
             (st\<lparr>chatMessages :=
                   (chatMessages st)[msgIndex := (chatMessages st ! msgIndex)\<lparr>c_text := response\<rparr>]\<rparr>,
              reply'))"

definition handleSendMessage_failed :: "nat \<Rightarrow> AppState \<Rightarrow> AppState" where
  "handleSendMessage_failed now st =
     st\<lparr>chatMessages := chatMessages st @
          [\<lparr>c_id = ''error-'' @ toString now, c_role = Model,
            c_text = shown (t ''error_chat'' (language st))\<rparr>],
        isChatLoading := False\<rparr>"

definition handleSendMessage_stream :: "string option list \<Rightarrow> AppState \<times> Reply \<Rightarrow> AppState \<times> Reply" where
  "handleSendMessage_stream chunks sr = fold handleSendMessage_chunk chunks sr"

text \<open>
  One whole call that nothing interrupts and whose stream ends normally: \<open>sent\<close> is the clock
  when the user message is pushed, \<open>opened\<close> the clock when the stream has been obtained.
\<close>

definition handleSendMessage :: "nat \<Rightarrow> nat \<Rightarrow> string \<Rightarrow> string option list \<Rightarrow> AppState \<Rightarrow> AppState" where
  "handleSendMessage sent opened typed chunks st =
     (case handleSendMessage_begin sent typed st of
        (st1, None) \<Rightarrow> st1
      | (st1, Some request) \<Rightarrow>
          fst (handleSendMessage_stream chunks (handleSendMessage_opened opened st1)))"


text \<open>
  \<open>renderChatbot\<close> writes the text of each message into the page as it is, inside a
  paragraph; the page is set through \<open>innerHTML\<close>, and the click listener dispatches on
  the \<open>data-action\<close> attribute of whatever element was clicked.
\<close>

definition renderChatbot_paragraph :: "ChatMessage \<Rightarrow> string" where
  "renderChatbot_paragraph message =
     ''<p class=\"whitespace-pre-wrap\">'' @ c_text message @ ''</p>''"

section \<open>Example inputs\<close>

text \<open>
  Two payloads for \<open>getSteps\<close> and the objects \<open>JSON.parse\<close> makes of them;
  \<open>JSON_parse_examples\<close> is \<open>JSON.parse\<close> restricted to these two texts.
\<close>

definition unordered_steps_payload :: string where
  "unordered_steps_payload =
     ''{\"total_power_consumption_kwh\":3,\"power_consumption_breakdown\":[],\"steps\":[{\"step\":2,\"title\":\"Weld\",\"description\":\"b\"},{\"step\":1,\"title\":\"Cut\",\"description\":\"a\"}]}''"

definition unordered_steps_data :: ProjectData where
  "unordered_steps_data =
     \<lparr>total_power_consumption_kwh = Num ''3'', power_consumption_breakdown = [],
      steps = [\<lparr>st_step = 2, st_title = ''Weld'', st_description = ''b''\<rparr>,
               \<lparr>st_step = 1, st_title = ''Cut'', st_description = ''a''\<rparr>]\<rparr>"

definition duplicate_steps_payload :: string where
  "duplicate_steps_payload =
     ''{\"total_power_consumption_kwh\":3,\"power_consumption_breakdown\":[],\"steps\":[{\"step\":1,\"title\":\"Cut\",\"description\":\"a\"},{\"step\":1,\"title\":\"Weld\",\"description\":\"b\"}]}''"

definition duplicate_steps_data :: ProjectData where
  "duplicate_steps_data =
     \<lparr>total_power_consumption_kwh = Num ''3'', power_consumption_breakdown = [],
      steps = [\<lparr>st_step = 1, st_title = ''Cut'', st_description = ''a''\<rparr>,
               \<lparr>st_step = 1, st_title = ''Weld'', st_description = ''b''\<rparr>]\<rparr>"

definition JSON_parse_examples :: "string \<Rightarrow> ProjectData option" where
  "JSON_parse_examples s =
     (if s = unordered_steps_payload then Some unordered_steps_data
      else if s = duplicate_steps_payload then Some duplicate_steps_data
      else None)"

text \<open>A payload that wraps the JSON text \<open>[1]\<close> in a fenced block.\<close>

definition fenced_payload :: string where
  "fenced_payload = ''```json'' @ [CHR 0x0A] @ ''[1]'' @ [CHR 0x0A] @ ''```''"

text \<open>\<open>JSON.parse\<close> restricted to the text \<open>[1]\<close>; it fails on \<open>fenced_payload\<close>, as \<open>JSON.parse\<close> does.\<close>

definition JSON_parse_one :: "string \<Rightarrow> int list option" where
  "JSON_parse_one s = (if s = ''[1]'' then Some [1] else None)"

text \<open>Two filled-in add-material forms and a clock reading.\<close>

definition steel_form :: MaterialForm where
  "steel_form = \<lparr>material_name = ''Steel'', quantity_value = ''2.5'', unit_selected = ''kg''\<rparr>"

definition glass_form :: MaterialForm where
  "glass_form = \<lparr>material_name = ''Glass'', quantity_value = ''1'', unit_selected = ''units''\<rparr>"

definition noon :: string where
  "noon = ''2024-05-01T12:00:00.000Z''"

text \<open>
  The chat tab has been opened and a first message sent; its stream has opened and delivered
  the first of its fragments.
\<close>

definition chat_opened_state :: AppState where
  "chat_opened_state = handleSetTab Chatbot state"

definition streaming_state :: AppState where
  "streaming_state =
     fst (handleSendMessage_chunk (Some ''Hel'')
            (handleSendMessage_opened 1001
               (fst (handleSendMessage_begin 1000 ''hi'' chat_opened_state))))"

text \<open>The first exchange has run to its end with the reply \<open>Hello\<close>.\<close>

definition replied_state :: AppState where
  "replied_state = handleSendMessage 1000 1001 ''hi'' [Some ''Hel'', Some ''lo''] chat_opened_state"

text \<open>A state in which the last steps request has failed.\<close>

definition filter_suggestion :: Suggestion where
  "filter_suggestion =
     \<lparr>s_id = ''s1'', s_title = ''Filter'', s_description = ''...'',
      materials_required = [\<lparr>r_name = ''Cloth'', r_quantity = Num ''1'', r_unit = ''units''\<rparr>],
      image_base64 = None\<rparr>"

definition failed_steps_state :: AppState where
  "failed_steps_state =
     handleSelectSuggestion_settled (Inl ServiceFailure)
       (fst (handleSelectSuggestion_begin ''s1''
          (handleGetSuggestions_settled (Inr [filter_suggestion])
             (handleGetSuggestions_begin (fst (handleAddMaterial noon steel_form state))))))"


text \<open>
  From that state: the chat tab is opened and a chat message is sent whose text is the
  markup of a button with the action \<open>reset\<close>; \<open>renderChatbot\<close> draws the button, it is
  clicked, and the recycler tab is opened again.
\<close>

definition reset_markup :: string where
  "reset_markup = ''<button data-action=\"reset\">reset</button>''"

definition chat_markup_state :: AppState where
  "chat_markup_state =
     fst (handleSendMessage_begin 1000 reset_markup (handleSetTab Chatbot failed_steps_state))"

definition reset_after_error_state :: AppState where
  "reset_after_error_state = handleSetTab Recycler (handleReset chat_markup_state)"
section \<open>Strings: facts\<close>

lemma toLowerCase_char_small:
  "list_all (\<lambda>c. \<not> digit7 c \<and> toLowerCase_char c = c) ''abcdefghijklmnopqrstuvwxyz''"
  by (simp add: toLowerCase_char_def)

lemma toLowerCase_char_ascii:
  assumes "\<not> digit7 a"
  shows "\<not> digit7 (toLowerCase_char a) \<and>
         toLowerCase_char (toLowerCase_char a) = toLowerCase_char a"
proof (cases "map_of (zip ''ABCDEFGHIJKLMNOPQRSTUVWXYZ'' ''abcdefghijklmnopqrstuvwxyz'') a")
  case None
  then have "toLowerCase_char a = a" by (simp add: toLowerCase_char_def)
  with assms show ?thesis by simp
next
  case (Some l)
  then have "(a, l) \<in> set (zip ''ABCDEFGHIJKLMNOPQRSTUVWXYZ'' ''abcdefghijklmnopqrstuvwxyz'')"
    by (rule map_of_SomeD)
  then have "l \<in> set ''abcdefghijklmnopqrstuvwxyz''" by (rule set_zip_rightD)
  then have "\<not> digit7 l \<and> toLowerCase_char l = l"
    using toLowerCase_char_small unfolding list_all_iff by blast
  moreover from Some have "toLowerCase_char a = l" by (simp add: toLowerCase_char_def)
  ultimately show ?thesis by simp
qed

lemma toLowerCase_Nil: "toLowerCase [] = Some []"
  by (simp add: toLowerCase.simps)

lemma toLowerCase_Cons_ascii:
  "\<not> digit7 a \<Longrightarrow>
   toLowerCase (a # cs) = map_option (Cons (toLowerCase_char a)) (toLowerCase cs)"
proof (cases cs)
  case Nil
  assume "\<not> digit7 a"
  with Nil show ?thesis by (simp add: toLowerCase.simps)
next
  case (Cons b bs)
  assume a: "\<not> digit7 a"
  then have "a \<noteq> CHR 0xE2" by auto
  with a Cons show ?thesis by (cases bs) (simp_all add: toLowerCase.simps)
qed

lemma toLowerCase_Cons_kelvin:
  "toLowerCase (CHR 0xE2 # CHR 0x84 # CHR 0xAA # cs) = map_option (Cons CHR ''k'') (toLowerCase cs)"
  by (simp add: toLowerCase.simps)

lemma toLowerCase_Cons_other:
  "digit7 a \<Longrightarrow> \<not> (a = CHR 0xE2 \<and> take 2 cs = [CHR 0x84, CHR 0xAA]) \<Longrightarrow>
   toLowerCase (a # cs) = None"
proof (cases cs)
  case Nil
  assume "digit7 a"
  with Nil show ?thesis by (simp add: toLowerCase.simps)
next
  case (Cons b bs)
  assume a: "digit7 a" and n: "\<not> (a = CHR 0xE2 \<and> take 2 cs = [CHR 0x84, CHR 0xAA])"
  show ?thesis
  proof (cases bs)
    case Nil
    with a Cons show ?thesis by (simp add: toLowerCase.simps)
  next
    case (Cons c cs')
    with n \<open>cs = b # bs\<close> have neg: "\<not> (a = CHR 0xE2 \<and> b = CHR 0x84 \<and> c = CHR 0xAA)"
      by simp
    have "toLowerCase (a # b # c # cs') = (if digit7 a then None
        else map_option (Cons (toLowerCase_char a)) (toLowerCase (b # c # cs')))"
      by (simp only: toLowerCase.simps(1) neg if_False)
    with a have "toLowerCase (a # b # c # cs') = None" by (simp only: if_True)
    with Cons \<open>cs = b # bs\<close> show ?thesis by (simp only:)
  qed
qed

lemma toLowerCase_lowered:
  "(\<forall>c\<in>set k. \<not> digit7 c \<and> toLowerCase_char c = c) \<Longrightarrow> toLowerCase k = Some k"
proof (induction k)
  case Nil
  show ?case by (rule toLowerCase_Nil)
next
  case (Cons a k)
  then have a: "\<not> digit7 a" "toLowerCase_char a = a" and k: "toLowerCase k = Some k"
    by simp_all
  from a(1) have "toLowerCase (a # k) = map_option (Cons (toLowerCase_char a)) (toLowerCase k)"
    by (rule toLowerCase_Cons_ascii)
  also have "\<dots> = Some (a # k)" by (simp only: a(2) k option.map)
  finally show ?case .
qed

lemma toLowerCase_result:
  "toLowerCase key = Some k \<Longrightarrow> \<forall>c\<in>set k. \<not> digit7 c \<and> toLowerCase_char c = c"
proof (induction key arbitrary: k rule: length_induct)
  case (1 key)
  show ?case
  proof (cases key)
    case Nil
    with "1.prems" show ?thesis by (simp add: toLowerCase_Nil)
  next
    case (Cons a cs)
    show ?thesis
    proof (cases "digit7 a")
      case False
      with Cons "1.prems" obtain k' where r: "toLowerCase cs = Some k'" and k: "k = toLowerCase_char a # k'"
        by (auto simp: toLowerCase_Cons_ascii)
      from Cons have "length cs < length key" by simp
      with "1.IH" r have "\<forall>c\<in>set k'. \<not> digit7 c \<and> toLowerCase_char c = c" by blast
      with k False show ?thesis by (simp add: toLowerCase_char_ascii)
    next
      case True
      show ?thesis
      proof (cases "a = CHR 0xE2 \<and> take 2 cs = [CHR 0x84, CHR 0xAA]")
        case False
        with True have "toLowerCase (a # cs) = None" by (rule toLowerCase_Cons_other)
        with Cons "1.prems" show ?thesis by simp
      next
        case k: True
        then have "cs = CHR 0x84 # CHR 0xAA # drop 2 cs"
          by (metis append_take_drop_id append_Cons append_Nil)
        with k Cons have key: "key = CHR 0xE2 # CHR 0x84 # CHR 0xAA # drop 2 cs" by simp
        with "1.prems" obtain k' where r: "toLowerCase (drop 2 cs) = Some k'"
          and kk: "k = CHR ''k'' # k'"
          by (auto simp: toLowerCase_Cons_kelvin)
        from Cons have "length (drop 2 cs) < length key" by simp
        with "1.IH" r have "\<forall>c\<in>set k'. \<not> digit7 c \<and> toLowerCase_char c = c" by blast
        with kk show ?thesis by (simp add: toLowerCase_char_def)
      qed
    qed
  qed
qed

text \<open>The lower-case form of a text is its own lower-case form.\<close>

lemma toLowerCase_idem: "toLowerCase key = Some k \<Longrightarrow> toLowerCase k = Some k"
  by (rule toLowerCase_lowered) (rule toLowerCase_result)

lemma toString_digit: "n < 10 \<Longrightarrow> toString n = [digit_char n]"
  by (simp add: toString.simps)

lemma toString_more: "\<not> n < 10 \<Longrightarrow> toString n = toString (n div 10) @ [digit_char (n mod 10)]"
  by (subst toString.simps) simp

lemma digit_char_is_digit: "d < 10 \<Longrightarrow> is_digit (digit_char d)"
proof -
  assume "d < 10"
  then have "d \<in> {0, 1, 2, 3, 4, 5, 6, 7, 8, 9}" by auto
  then show ?thesis by (auto simp: is_digit_def digit_char_def)
qed

lemma toString_digits: "list_all is_digit (toString n)"
proof (induction n rule: toString.induct)
  case (1 n)
  show ?case
  proof (cases "n < 10")
    case True
    then show ?thesis by (simp add: toString_digit digit_char_is_digit)
  next
    case False
    with 1 show ?thesis by (simp add: toString_more digit_char_is_digit)
  qed
qed

lemma toString_not_model: "toString a \<noteq> toString b @ ''-model''"
proof
  assume "toString a = toString b @ ''-model''"
  then have "list_all is_digit (toString b @ ''-model'')" using toString_digits [of a] by simp
  then show False by (simp add: is_digit_def)
qed

lemma strip_front_none:
  "find (\<lambda>w. w \<noteq> [] \<and> prefix w s) ws = None \<Longrightarrow> strip_front ws s = s"
  by (subst strip_front.simps) simp

lemma strip_front_some:
  "find (\<lambda>w. w \<noteq> [] \<and> prefix w s) ws = Some w \<Longrightarrow>
   strip_front ws s = strip_front ws (drop (length w) s)"
  by (subst strip_front.simps) simp

lemma strip_front_Nil: "strip_front ws [] = []"
proof (cases "find (\<lambda>w. w \<noteq> [] \<and> prefix w []) ws")
  case None
  then show ?thesis by (rule strip_front_none)
next
  case (Some w)
  then have "w \<noteq> [] \<and> prefix w []" by (auto simp: find_Some_iff)
  then show ?thesis by simp
qed

lemma find_none_hd:
  "c \<notin> set (map hd ws) \<Longrightarrow> find (\<lambda>w. w \<noteq> [] \<and> prefix w (c # r)) ws = None"
  by (induction ws) (auto simp: prefix_Cons neq_Nil_conv)

lemma trimStart_keep: "c \<notin> set (map hd white_space) \<Longrightarrow> trimStart (c # r) = c # r"
  by (simp add: trimStart_def strip_front_none find_none_hd)

lemma trimEnd_keep: "c \<notin> set (map last white_space) \<Longrightarrow> trimEnd (r @ [c]) = r @ [c]"
proof -
  assume "c \<notin> set (map last white_space)"
  then have "c \<notin> set (map hd (map rev white_space))"
    by (simp add: white_space_def)
  then have "find (\<lambda>w. w \<noteq> [] \<and> prefix w (c # rev r)) (map rev white_space) = None"
    by (rule find_none_hd)
  then show ?thesis by (simp add: trimEnd_def strip_front_none)
qed

text \<open>A text that neither starts nor ends with a byte of a white space character is its own trim.\<close>

lemma trim_keep:
  assumes "s \<noteq> []"
    and "hd s \<notin> set (map hd white_space)"
    and "last s \<notin> set (map last white_space)"
  shows "trim s = s"
proof -
  from assms(1) have "s = hd s # tl s" by simp
  then have "trimStart s = s" using trimStart_keep [OF assms(2), of "tl s"] by simp
  moreover from assms(1) have "s = butlast s @ [last s]" by simp
  then have "trimEnd s = s" using trimEnd_keep [OF assms(3), of "butlast s"] by simp
  ultimately show ?thesis by (simp add: trim_def)
qed

text \<open>No character of \<open>white_space\<close> is the beginning of another one.\<close>

lemma white_space_prefix_free_all:
  "list_all (\<lambda>a. list_all (\<lambda>b. prefix a b \<longrightarrow> a = b) white_space) white_space"
  by (simp add: white_space_def)

lemma white_space_prefix_free:
  "a \<in> set white_space \<Longrightarrow> b \<in> set white_space \<Longrightarrow> prefix a b \<Longrightarrow> a = b"
  using white_space_prefix_free_all by (simp add: list_all_iff)

lemma find_white_space:
  assumes "w \<in> set white_space"
  shows "find (\<lambda>v. v \<noteq> [] \<and> prefix v (w @ r)) white_space = Some w"
proof -
  from assms have "w \<noteq> []" by (auto simp: white_space_def)
  with assms have "find (\<lambda>v. v \<noteq> [] \<and> prefix v (w @ r)) white_space \<noteq> None"
    by (auto simp: find_None_iff)
  then obtain v where v: "find (\<lambda>v. v \<noteq> [] \<and> prefix v (w @ r)) white_space = Some v"
    by auto
  then have "v \<in> set white_space" and "prefix v (w @ r)"
    by (auto simp: find_Some_iff)
  then have "prefix v w \<or> prefix w v"
    using prefix_same_cases [of v "w @ r" w] by auto
  with \<open>v \<in> set white_space\<close> assms have "v = w"
    by (auto dest: white_space_prefix_free)
  with v show ?thesis by simp
qed

text \<open>A run of white space characters is trimmed to nothing.\<close>

lemma trim_white_space: "set ws \<subseteq> set white_space \<Longrightarrow> trim (concat ws) = []"
proof -
  assume "set ws \<subseteq> set white_space"
  then have "trimStart (concat ws) = []"
  proof (induction ws)
    case Nil
    then show ?case by (simp add: trimStart_def strip_front_Nil)
  next
    case (Cons w ws)
    then have "w \<in> set white_space" by simp
    then have "find (\<lambda>v. v \<noteq> [] \<and> prefix v (w @ concat ws)) white_space = Some w"
      by (rule find_white_space)
    then have "strip_front white_space (w @ concat ws) =
        strip_front white_space (drop (length w) (w @ concat ws))"
      by (rule strip_front_some)
    moreover from Cons have "strip_front white_space (concat ws) = []"
      by (simp add: trimStart_def)
    ultimately show ?case by (simp add: trimStart_def)
  qed
  then show ?thesis by (simp add: trim_def trimEnd_def strip_front_Nil)
qed

section \<open>The translation lookup\<close>

lemma t_own:
  "toLowerCase key = Some k \<Longrightarrow> translations_get k = Own e \<Longrightarrow> t key l = Str (localized e l)"
  by (simp add: t_def)

lemma t_absent:
  "toLowerCase key = Some k \<Longrightarrow> translations_get k = Absent \<Longrightarrow> t key l = Str key"
  by (simp add: t_def)

lemma translations_get_chatbot_greeting:
  "translations_get ''chatbot_greeting'' =
     Own \<lparr>en = ''Red Recycling Assistant online. Atmospheric pressure is nominal, and I've finished recalibrating my material scanners. I'm ready to turn today's scrap into tomorrow's survival gear. What engineering challenge can I help you solve?'',
          ar = ar_chatbot_greeting\<rparr>"
  by (simp add: translations_get_def translations_table_def)

lemma translations_get_easy: "translations_get ''easy'' = Own \<lparr>en = ''Easy'', ar = ar_easy\<rparr>"
  by (simp add: translations_get_def translations_table_def)

lemma translations_get_foo: "translations_get ''foo'' = Absent"
  by (simp add: translations_get_def translations_table_def)

lemma translations_get_back_button:
  "translations_get ''back_button'' =
     Own \<lparr>en = ''Return to Blueprints'', ar = ar_back_button\<rparr>"
  by (simp add: translations_get_def translations_table_def)

lemma toLowerCase_examples:
  "toLowerCase ''Easy'' = Some ''easy''"
  "toLowerCase ''easy'' = Some ''easy''"
  "toLowerCase ''Foo'' = Some ''foo''"
  "toLowerCase ''foo'' = Some ''foo''"
  "toLowerCase (''bac'' @ [CHR 0xE2, CHR 0x84, CHR 0xAA] @ ''_button'') = Some ''back_button''"
  "toLowerCase [CHR 0xC3, CHR 0x89] = None"
  by (simp_all add: toLowerCase_Nil toLowerCase_Cons_ascii toLowerCase_Cons_kelvin
      toLowerCase_Cons_other toLowerCase_char_def)

lemma t_chatbot_greeting:
  "shown (t ''chatbot_greeting'' l) =
     (case l of
        En \<Rightarrow> ''Red Recycling Assistant online. Atmospheric pressure is nominal, and I've finished recalibrating my material scanners. I'm ready to turn today's scrap into tomorrow's survival gear. What engineering challenge can I help you solve?''
      | Ar \<Rightarrow> ar_chatbot_greeting)"
proof -
  have "toLowerCase ''chatbot_greeting'' = Some ''chatbot_greeting''"
    by (simp add: toLowerCase_Nil toLowerCase_Cons_ascii toLowerCase_char_def)
  then show ?thesis
    by (simp add: t_def translations_get_chatbot_greeting localized_def shown_def
        split: language.splits)
qed

text \<open>
  C10, as the code has it. When the lower-case form of the key is an entry of the table,
  \<open>t\<close> returns the entry's string for the locale, and so does \<open>t\<close> on the lower-case
  form: there the lookup ignores case. When the lower-case form is no property of the table
  at all (it is an ASCII text that names none, or it holds a character outside ASCII),
  \<open>t\<close> returns the key as it was given; the lower-case form of the key is then returned
  as itself too, so the two results differ exactly when lowering changes the key.
\<close>

theorem t_case_insensitive_on_entries:
  "(toLowerCase key = Some k \<and> translations_get k = Own e \<longrightarrow>
      t key l = Str (localized e l) \<and> t k l = t key l) \<and>
   (toLowerCase key = Some k \<and> translations_get k = Absent \<longrightarrow>
      t key l = Str key \<and> t k l = Str k) \<and>
   (toLowerCase key = None \<longrightarrow> t key l = Str key)"
proof -
  have own: "t key l = Str (localized e l) \<and> t k l = t key l"
    if a: "toLowerCase key = Some k" and b: "translations_get k = Own e"
  proof -
    from a have "toLowerCase k = Some k" by (rule toLowerCase_idem)
    then have "t k l = Str (localized e l)" using b by (rule t_own)
    moreover have "t key l = Str (localized e l)" using a b by (rule t_own)
    ultimately show ?thesis by simp
  qed
  have absent: "t key l = Str key \<and> t k l = Str k"
    if a: "toLowerCase key = Some k" and b: "translations_get k = Absent"
  proof -
    from a have "toLowerCase k = Some k" by (rule toLowerCase_idem)
    then have "t k l = Str k" using b by (rule t_absent)
    moreover have "t key l = Str key" using a b by (rule t_absent)
    ultimately show ?thesis by simp
  qed
  have none: "t key l = Str key" if "toLowerCase key = None"
    using that by (simp add: t_def)
  show ?thesis using own absent none by blast
qed

theorem t_case_insensitive_on_entries_witness:
  "t ''Easy'' Ar = Str ar_easy \<and> t ''easy'' Ar = t ''Easy'' Ar \<and>
   t (''bac'' @ [CHR 0xE2, CHR 0x84, CHR 0xAA] @ ''_button'') En = Str ''Return to Blueprints'' \<and>
   t ''Foo'' En = Str ''Foo'' \<and> t ''foo'' En = Str ''foo'' \<and>
   t [CHR 0xC3, CHR 0x89] En = Str [CHR 0xC3, CHR 0x89]"
proof -
  have "toLowerCase ''Easy'' = Some ''easy'' \<and>
      translations_get ''easy'' = Own \<lparr>en = ''Easy'', ar = ar_easy\<rparr>"
    using toLowerCase_examples(1) translations_get_easy by (rule conjI)
  with t_case_insensitive_on_entries
      [of "''Easy''" "''easy''" "\<lparr>en = ''Easy'', ar = ar_easy\<rparr>" Ar]
  have easy: "t ''Easy'' Ar = Str (localized \<lparr>en = ''Easy'', ar = ar_easy\<rparr> Ar) \<and>
      t ''easy'' Ar = t ''Easy'' Ar"
    by blast
  have "toLowerCase (''bac'' @ [CHR 0xE2, CHR 0x84, CHR 0xAA] @ ''_button'') = Some ''back_button'' \<and>
      translations_get ''back_button'' = Own \<lparr>en = ''Return to Blueprints'', ar = ar_back_button\<rparr>"
    using toLowerCase_examples(5) translations_get_back_button by (rule conjI)
  with t_case_insensitive_on_entries
      [of "''bac'' @ [CHR 0xE2, CHR 0x84, CHR 0xAA] @ ''_button''" "''back_button''"
        "\<lparr>en = ''Return to Blueprints'', ar = ar_back_button\<rparr>" En]
  have kelvin: "t (''bac'' @ [CHR 0xE2, CHR 0x84, CHR 0xAA] @ ''_button'') En =
      Str (localized \<lparr>en = ''Return to Blueprints'', ar = ar_back_button\<rparr> En)"
    by blast
  have "toLowerCase ''Foo'' = Some ''foo'' \<and> translations_get ''foo'' = Absent"
    using toLowerCase_examples(3) translations_get_foo by (rule conjI)
  with t_case_insensitive_on_entries [of "''Foo''" "''foo''" "\<lparr>en = [], ar = []\<rparr>" En]
  have foo: "t ''Foo'' En = Str ''Foo'' \<and> t ''foo'' En = Str ''foo''"
    by blast
  from t_case_insensitive_on_entries [of "[CHR 0xC3, CHR 0x89]" "[]" "\<lparr>en = [], ar = []\<rparr>" En]
    toLowerCase_examples(6)
  have other: "t [CHR 0xC3, CHR 0x89] En = Str [CHR 0xC3, CHR 0x89]"
    by blast
  from easy kelvin foo other show ?thesis by (simp add: localized_def)
qed

text \<open>
  C10, as the claim states it, fails: the lower-case form of the key \<open>Foo\<close> is \<open>foo\<close>;
  the key \<open>Foo\<close> is returned as \<open>Foo\<close>, its lower-case form as \<open>foo\<close>.
\<close>

theorem t_not_case_insensitive_counterexample:
  "toLowerCase ''Foo'' = Some ''foo'' \<and> t ''Foo'' En = Str ''Foo'' \<and>
   t ''foo'' En = Str ''foo'' \<and> t ''Foo'' En \<noteq> t ''foo'' En"
proof -
  have "t ''Foo'' En = Str ''Foo''"
    using toLowerCase_examples(3) translations_get_foo by (rule t_absent)
  moreover have "t ''foo'' En = Str ''foo''"
    using toLowerCase_examples(4) translations_get_foo by (rule t_absent)
  ultimately show ?thesis using toLowerCase_examples(3) by simp
qed

section \<open>Language toggle\<close>

text \<open>
  C7. From every state, \<open>handleToggleLanguage\<close> flips the locale, empties materials and
  suggestions, clears the selection, the project data and the error, and installs a chat
  session created for the new locale whose transcript is the single model message
  \<open>initial\<close> carrying the greeting in the new locale.
\<close>

theorem handleToggleLanguage_resets:
  "language (handleToggleLanguage st) = (if language st = En then Ar else En) \<and>
   language (handleToggleLanguage st) \<noteq> language st \<and>
   materials (handleToggleLanguage st) = [] \<and>
   suggestions (handleToggleLanguage st) = [] \<and>
   selectedSuggestion (handleToggleLanguage st) = None \<and>
   projectData (handleToggleLanguage st) = None \<and>
   error (handleToggleLanguage st) = None \<and>
   chat (handleToggleLanguage st) = Some (startChat (language (handleToggleLanguage st))) \<and>
   chatMessages (handleToggleLanguage st) =
     [\<lparr>c_id = ''initial'', c_role = Model,
       c_text =
         (case language (handleToggleLanguage st) of
            En \<Rightarrow> ''Red Recycling Assistant online. Atmospheric pressure is nominal, and I've finished recalibrating my material scanners. I'm ready to turn today's scrap into tomorrow's survival gear. What engineering challenge can I help you solve?''
          | Ar \<Rightarrow> ar_chatbot_greeting)\<rparr>]"
  by (cases "language st") (simp_all add: handleToggleLanguage_def initChat_def t_chatbot_greeting)

theorem handleToggleLanguage_resets_witness:
  "language (handleToggleLanguage failed_steps_state) = Ar \<and>
   error (handleToggleLanguage failed_steps_state) = None \<and>
   suggestions (handleToggleLanguage failed_steps_state) = [] \<and>
   chatMessages (handleToggleLanguage failed_steps_state) =
     [\<lparr>c_id = ''initial'', c_role = Model, c_text = ar_chatbot_greeting\<rparr>]"
proof -
  have "language failed_steps_state = En"
    by (simp add: failed_steps_state_def handleSelectSuggestion_settled_def
        handleSelectSuggestion_begin_def handleGetSuggestions_settled_def
        handleGetSuggestions_begin_def handleAddMaterial_def state_def Let_def
        split: option.splits)
  then show ?thesis
    using handleToggleLanguage_resets [of failed_steps_state] by simp
qed

section \<open>Reset\<close>

lemma handleReset_fields:
  "materials (handleReset st) = [] \<and> suggestions (handleReset st) = [] \<and>
   selectedSuggestion (handleReset st) = None \<and> projectData (handleReset st) = None \<and>
   error (handleReset st) = error st \<and> isLoading (handleReset st) = isLoading st"
  by (simp add: handleReset_def)

lemma handleReset_view:
  "renderRecyclerContent (handleReset st) =
     (if isLoading st \<or> \<not> falsy (error st) then SuggestionDisplay else MaterialInputManager)"
  by (simp add: renderRecyclerContent_def handleReset_def)

lemma failed_steps_state_fields:
  "error failed_steps_state = Some ''Failed to get steps. Please try again.'' \<and>
   isLoading failed_steps_state = False \<and> selectedSuggestion failed_steps_state = None"
  by (simp add: failed_steps_state_def handleSelectSuggestion_settled_def
      handleSelectSuggestion_begin_def handleGetSuggestions_settled_def
      handleGetSuggestions_begin_def handleAddMaterial_def state_def Let_def
      split: option.splits)

lemma failed_steps_state_chat:
  "chat failed_steps_state = None \<and> \<not> isChatLoading failed_steps_state"
  by (simp add: failed_steps_state_def handleSelectSuggestion_settled_def
      handleSelectSuggestion_begin_def handleGetSuggestions_settled_def
      handleGetSuggestions_begin_def handleAddMaterial_def state_def Let_def
      split: option.splits)

lemma chat_markup_state_fields:
  "activeTab chat_markup_state = Chatbot \<and>
   error chat_markup_state = Some ''Failed to get steps. Please try again.'' \<and>
   isLoading chat_markup_state = False \<and>
   last (chatMessages chat_markup_state) =
     \<lparr>c_id = toString 1000, c_role = User, c_text = reset_markup\<rparr>"
proof -
  have "trim reset_markup = reset_markup"
    by (rule trim_keep) (simp_all add: reset_markup_def white_space_def)
  moreover have "reset_markup \<noteq> []" by (simp add: reset_markup_def)
  ultimately show ?thesis
    using failed_steps_state_fields failed_steps_state_chat
    by (simp add: chat_markup_state_def handleSendMessage_begin_def handleSetTab_def
        initChat_def Let_def)
qed

text \<open>
  C6. \<open>handleReset\<close> leaves \<open>error\<close> as it was. A steps request has failed and set the
  error; on the chat tab a message with the markup of a reset button is sent and drawn, and
  the button is clicked; back on the recycler tab the four fields are cleared, the error is
  still there, and \<open>renderRecyclerContent\<close> hands the state to
  \<open>renderSuggestionDisplay\<close> (which shows the error), not to
  \<open>renderMaterialInputManager\<close>.
\<close>

theorem handleReset_keeps_error_view:
  "activeTab chat_markup_state = Chatbot \<and>
   renderChatbot_paragraph (last (chatMessages chat_markup_state)) =
     ''<p class=\"whitespace-pre-wrap\"><button data-action=\"reset\">reset</button></p>'' \<and>
   error chat_markup_state = Some ''Failed to get steps. Please try again.'' \<and>
   activeTab reset_after_error_state = Recycler \<and>
   materials reset_after_error_state = [] \<and>
   suggestions reset_after_error_state = [] \<and>
   selectedSuggestion reset_after_error_state = None \<and>
   projectData reset_after_error_state = None \<and>
   error reset_after_error_state = Some ''Failed to get steps. Please try again.'' \<and>
   renderRecyclerContent reset_after_error_state = SuggestionDisplay \<and>
   renderRecyclerContent reset_after_error_state \<noteq> MaterialInputManager"
proof -
  have r: "reset_after_error_state =
      (handleReset chat_markup_state)\<lparr>activeTab := Recycler\<rparr>"
    by (simp add: reset_after_error_state_def handleSetTab_def Let_def)
  show ?thesis
    by (simp add: r chat_markup_state_fields handleReset_def renderRecyclerContent_def
        falsy_def renderChatbot_paragraph_def reset_markup_def)
qed

section \<open>Inventory\<close>

lemma valid_unsigned_prefix: "valid_unsigned s \<Longrightarrow> unsigned_prefix s \<noteq> None"
proof -
  assume v: "valid_unsigned s"
  show ?thesis
  proof (cases "takeWhile is_digit s = []")
    case False
    then show ?thesis
      by (simp add: unsigned_prefix_def Let_def split: list.splits)
  next
    case True
    with v obtain r2 where "dropWhile is_digit s = CHR ''.'' # r2" "takeWhile is_digit r2 \<noteq> []"
      by (cases "dropWhile is_digit s") (simp_all add: valid_unsigned_def Let_def split: if_splits)
    with True show ?thesis
      by (simp add: unsigned_prefix_def Let_def)
  qed
qed

lemma valid_unsigned_first:
  "valid_unsigned s \<Longrightarrow> \<exists>c r. s = c # r \<and> (is_digit c \<or> c = CHR ''.'')"
proof (cases s)
  case Nil
  assume "valid_unsigned s"
  with Nil show ?thesis by (simp add: valid_unsigned_def)
next
  case (Cons c r)
  assume v: "valid_unsigned s"
  show ?thesis
  proof (cases "is_digit c")
    case True
    with Cons show ?thesis by simp
  next
    case False
    with v Cons show ?thesis
      by (auto simp: valid_unsigned_def Let_def split: if_splits)
  qed
qed

lemma parseFloat_valid: "valid_floating_point_number s \<Longrightarrow> parseFloat s \<noteq> NaN"
proof -
  assume v: "valid_floating_point_number s"
  then obtain c r where s: "s = c # r"
    by (cases s) (simp_all add: valid_floating_point_number_def)
  show ?thesis
  proof (cases "c = CHR ''-''")
    case True
    with v s have "valid_unsigned r" by (simp add: valid_floating_point_number_def)
    then have "unsigned_prefix r \<noteq> None" by (rule valid_unsigned_prefix)
    moreover have "trimStart (CHR ''-'' # r) = CHR ''-'' # r"
      by (rule trimStart_keep) (simp add: white_space_def)
    ultimately show ?thesis using True s
      by (auto simp: parseFloat_def decimal_prefix_def split: option.splits)
  next
    case False
    with v s have vu: "valid_unsigned s" by (simp add: valid_floating_point_number_def)
    then have up: "unsigned_prefix s \<noteq> None" by (rule valid_unsigned_prefix)
    from vu s have first: "is_digit c \<or> c = CHR ''.''"
      using valid_unsigned_first [of s] by auto
    then have "c \<notin> set (map hd white_space)" and "c \<noteq> CHR ''+''"
      by (auto simp: is_digit_def white_space_def)
    then have "trimStart (c # r) = c # r" and "c \<noteq> CHR ''+''"
      by (simp_all add: trimStart_keep)
    with False s up show ?thesis
      by (auto simp: parseFloat_def decimal_prefix_def split: option.splits)
  qed
qed

lemma valid_floating_point_number_nonempty: "valid_floating_point_number s \<Longrightarrow> s \<noteq> []"
  by (auto simp: valid_floating_point_number_def)

text \<open>The handler by itself tests presence only: that the name and the value are not empty.\<close>

lemma handleAddMaterial_presence:
  "handleAddMaterial now form st =
     (if material_name form \<noteq> [] \<and> quantity_value form \<noteq> [] then
        (st\<lparr>materials := materials st @
              [\<lparr>m_id = now, m_name = material_name form,
                m_quantity = parseFloat (quantity_value form),
                m_unit = unit_selected form\<rparr>]\<rparr>,
         empty_form)
      else (st, form))"
  by (simp add: handleAddMaterial_def Let_def)

text \<open>
  C5, as the code has it. The handler tests that the name and the quantity value are not
  empty. The page reads the quantity from an input of \<open>type="number"\<close>, whose value is
  empty or a valid floating-point number. On every such form \<open>handleAddMaterial\<close> appends exactly when
  the name is not empty and the quantity is a number: then the new material is put at the
  end with the clock reading as id and the parsed quantity, which is not \<open>NaN\<close>, and the
  form comes back reset. Otherwise state and form are unchanged. So no material whose
  quantity is \<open>NaN\<close> is added.
\<close>

theorem handleAddMaterial_validates:
  "number_input_reads (quantity_value form) \<Longrightarrow>
   handleAddMaterial now form st =
     (if material_name form \<noteq> [] \<and> valid_floating_point_number (quantity_value form) then
        (st\<lparr>materials := materials st @
              [\<lparr>m_id = now, m_name = material_name form,
                m_quantity = parseFloat (quantity_value form),
                m_unit = unit_selected form\<rparr>]\<rparr>,
         empty_form)
      else (st, form)) \<and>
   (valid_floating_point_number (quantity_value form) \<longrightarrow>
      parseFloat (quantity_value form) \<noteq> NaN) \<and>
   (list_all (\<lambda>m. m_quantity m \<noteq> NaN) (materials st) \<longrightarrow>
      list_all (\<lambda>m. m_quantity m \<noteq> NaN) (materials (fst (handleAddMaterial now form st))))"
proof -
  assume "number_input_reads (quantity_value form)"
  then have "quantity_value form \<noteq> [] \<longleftrightarrow> valid_floating_point_number (quantity_value form)"
    by (auto simp: number_input_reads_def dest: valid_floating_point_number_nonempty)
  then show ?thesis
    using parseFloat_valid [of "quantity_value form"]
    by (auto simp: handleAddMaterial_presence)
qed

theorem handleAddMaterial_validates_witness:
  "materials (fst (handleAddMaterial noon steel_form state)) =
     [\<lparr>m_id = noon, m_name = ''Steel'', m_quantity = Num ''2.5'', m_unit = ''kg''\<rparr>] \<and>
   snd (handleAddMaterial noon steel_form state) = empty_form \<and>
   handleAddMaterial noon (steel_form\<lparr>quantity_value := []\<rparr>) state =
     (state, steel_form\<lparr>quantity_value := []\<rparr>) \<and>
   handleAddMaterial noon (steel_form\<lparr>material_name := []\<rparr>) state =
     (state, steel_form\<lparr>material_name := []\<rparr>)"
proof -
  have v: "valid_floating_point_number ''2.5''"
    by (simp add: valid_floating_point_number_def valid_unsigned_def valid_exponent_def
        is_digit_def)
  have n: "\<not> valid_floating_point_number []"
    by (simp add: valid_floating_point_number_def)
  have "trimStart ''2.5'' = ''2.5''"
    by (rule trimStart_keep) (simp add: white_space_def)
  then have p: "parseFloat ''2.5'' = Num ''2.5''"
    by (simp add: parseFloat_def decimal_prefix_def unsigned_prefix_def exponent_prefix_def
        is_digit_def)
  have r1: "number_input_reads (quantity_value steel_form)"
    and r2: "number_input_reads (quantity_value (steel_form\<lparr>quantity_value := []\<rparr>))"
    and r3: "number_input_reads (quantity_value (steel_form\<lparr>material_name := []\<rparr>))"
    by (simp_all add: number_input_reads_def steel_form_def v)
  show ?thesis
    using handleAddMaterial_validates [OF r1, of noon state]
      handleAddMaterial_validates [OF r2, of noon state]
      handleAddMaterial_validates [OF r3, of noon state]
    by (simp add: steel_form_def state_def v n p)
qed

text \<open>
  C5, as the claim states it, fails for the handler by itself: it does not look at what the
  quantity value is. Given the value \<open>abc\<close>, which is not empty, it appends a material
  whose quantity is \<open>NaN\<close>.
\<close>

theorem handleAddMaterial_not_a_number_counterexample:
  "parseFloat ''abc'' = NaN \<and> \<not> valid_floating_point_number ''abc'' \<and>
   materials (fst (handleAddMaterial noon (steel_form\<lparr>quantity_value := ''abc''\<rparr>) state)) =
     [\<lparr>m_id = noon, m_name = ''Steel'', m_quantity = NaN, m_unit = ''kg''\<rparr>]"
proof -
  have "trimStart ''abc'' = ''abc''"
    by (rule trimStart_keep) (simp add: white_space_def)
  then have p: "parseFloat ''abc'' = NaN"
    by (simp add: parseFloat_def decimal_prefix_def unsigned_prefix_def is_digit_def)
  have n: "\<not> valid_floating_point_number ''abc''"
    by (simp add: valid_floating_point_number_def valid_unsigned_def is_digit_def)
  show ?thesis
    by (simp add: p n handleAddMaterial_def steel_form_def state_def Let_def)
qed

lemma handleAddMaterial_ids:
  "map m_id (materials (fst (handleAddMaterial now form st))) =
     map m_id (materials st) \<or>
   map m_id (materials (fst (handleAddMaterial now form st))) =
     map m_id (materials st) @ [now]"
  by (simp add: handleAddMaterial_def Let_def)

lemma handleAddMaterial_fresh_distinct:
  "distinct (map m_id (materials st)) \<Longrightarrow> now \<notin> set (map m_id (materials st)) \<Longrightarrow>
   distinct (map m_id (materials (fst (handleAddMaterial now form st))))"
  by (simp add: handleAddMaterial_def Let_def)

lemma handleDeleteMaterial_distinct:
  "distinct (map m_id (materials st)) \<Longrightarrow>
   distinct (map m_id (materials (handleDeleteMaterial i st)))"
  by (simp add: handleDeleteMaterial_def distinct_map_filter)

lemma apply_material_op_ids:
  "set (map m_id (materials (apply_material_op st op))) \<subseteq>
     set (map m_id (materials st)) \<union> set (add_clocks [op])"
  by (cases op) (auto simp: handleAddMaterial_def handleDeleteMaterial_def Let_def)

text \<open>
  As long as every add reads a clock value that no earlier add of the run has read and no
  listed material carries, the ids stay pairwise different.
\<close>

lemma run_material_ops_distinct:
  "distinct (map m_id (materials st) @ add_clocks ops) \<Longrightarrow>
   distinct (map m_id (materials (run_material_ops ops st)))"
proof (induction ops arbitrary: st)
  case Nil
  then show ?case by (simp add: run_material_ops_def)
next
  case (Cons op ops)
  have sub: "set (map m_id (materials (apply_material_op st op))) \<subseteq>
      set (map m_id (materials st)) \<union> set (add_clocks [op])"
    by (rule apply_material_op_ids)
  have "distinct (map m_id (materials (apply_material_op st op)) @ add_clocks ops)"
  proof (cases op)
    case (AddMaterial now form)
    with Cons.prems have d: "distinct (map m_id (materials st))" "now \<notin> set (map m_id (materials st))"
      "distinct (add_clocks ops)" "now \<notin> set (add_clocks ops)"
      "set (map m_id (materials st)) \<inter> set (add_clocks ops) = {}"
      by auto
    from d(1,2) have "distinct (map m_id (materials (fst (handleAddMaterial now form st))))"
      by (rule handleAddMaterial_fresh_distinct)
    with sub d AddMaterial show ?thesis by auto
  next
    case (DeleteMaterial i)
    with Cons.prems have d: "distinct (map m_id (materials st))" "distinct (add_clocks ops)"
      "set (map m_id (materials st)) \<inter> set (add_clocks ops) = {}"
      by auto
    from d(1) have "distinct (map m_id (materials (handleDeleteMaterial i st)))"
      by (rule handleDeleteMaterial_distinct)
    with sub d DeleteMaterial show ?thesis by auto
  qed
  then have "distinct (map m_id (materials (run_material_ops ops (apply_material_op st op))))"
    by (rule Cons.IH)
  then show ?case by (simp add: run_material_ops_def)
qed

text \<open>
  C1. Two add-material submissions that read the same clock value give two materials with
  the same id; deleting by that id then removes both lines.
\<close>

theorem add_material_same_clock_duplicate_ids:
  "map m_id (materials (run_material_ops
      [AddMaterial noon steel_form, AddMaterial noon glass_form] state)) = [noon, noon] \<and>
   \<not> distinct (map m_id (materials (run_material_ops
      [AddMaterial noon steel_form, AddMaterial noon glass_form] state))) \<and>
   materials (run_material_ops
      [AddMaterial noon steel_form, AddMaterial noon glass_form, DeleteMaterial noon] state) = []"
proof -
  show ?thesis
    by (simp add: run_material_ops_def handleAddMaterial_def handleDeleteMaterial_def
        steel_form_def glass_form_def state_def Let_def)
qed

section \<open>Empty responses\<close>

lemma responseText_blank:
  "txt = None \<or> (\<exists>ws. set ws \<subseteq> set white_space \<and> txt = Some (concat ws)) \<Longrightarrow>
   responseText txt = None \<or> responseText txt = Some []"
  by (auto simp: responseText_def trim_white_space)

text \<open>
  C8. When the text of the model's response is absent, empty or a run of white space
  characters, \<open>getSuggestions\<close> and \<open>getSteps\<close> both fail with their empty-response error,
  whatever \<open>JSON.parse\<close> and the image service would do.
\<close>

theorem empty_response_fails:
  "txt = None \<or> (\<exists>ws. set ws \<subseteq> set white_space \<and> txt = Some (concat ws)) \<Longrightarrow>
   getSuggestions JSON_parse generateImages (Inr txt) = Inl EmptySuggestionsResponse \<and>
   getSteps JSON_parse' (Inr txt) = Inl EmptyStepsResponse"
proof -
  assume "txt = None \<or> (\<exists>ws. set ws \<subseteq> set white_space \<and> txt = Some (concat ws))"
  then have "responseText txt = None \<or> responseText txt = Some []"
    by (rule responseText_blank)
  then show ?thesis
    by (auto simp: getSuggestions_def getSteps_def)
qed

theorem empty_response_fails_witness:
  "getSuggestions (\<lambda>s. Some [filter_suggestion]) (\<lambda>s. Inr None)
     (Inr (Some [CHR '' '', CHR 0xC2, CHR 0xA0, CHR 0x0A])) = Inl EmptySuggestionsResponse \<and>
   getSteps JSON_parse_examples (Inr (Some [CHR '' '', CHR 0xC2, CHR 0xA0, CHR 0x0A])) =
     Inl EmptyStepsResponse \<and>
   getSteps JSON_parse_examples (Inr None) = Inl EmptyStepsResponse \<and>
   getSteps JSON_parse_examples (Inr (Some [])) = Inl EmptyStepsResponse"
proof -
  have w: "set [[CHR '' ''], [CHR 0xC2, CHR 0xA0], [CHR 0x0A]] \<subseteq> set white_space"
    by (simp add: white_space_def)
  have c: "[CHR '' '', CHR 0xC2, CHR 0xA0, CHR 0x0A] =
      concat [[CHR '' ''], [CHR 0xC2, CHR 0xA0], [CHR 0x0A]]"
    by simp
  have e: "set [] \<subseteq> set white_space \<and> Some [] = Some (concat ([] :: string list))"
    by simp
  show ?thesis
    using empty_response_fails [of "Some [CHR '' '', CHR 0xC2, CHR 0xA0, CHR 0x0A]"
        "\<lambda>s. Some [filter_suggestion]" "\<lambda>s. Inr None" JSON_parse_examples]
      empty_response_fails [of None "\<lambda>s. Some [filter_suggestion]" "\<lambda>s. Inr None"
        JSON_parse_examples]
      empty_response_fails [of "Some []" "\<lambda>s. Some [filter_suggestion]" "\<lambda>s. Inr None"
        JSON_parse_examples]
    using w c e by blast
qed

section \<open>Steps\<close>

lemma getSteps_Inr:
  "getSteps JSON_parse response = Inr result \<Longrightarrow>
   \<exists>txt data. response = Inr (Some txt) \<and> trim txt \<noteq> [] \<and>
     JSON_parse (parseJsonResponse_input (trim txt)) = Some data \<and>
     result = data\<lparr>steps := sort_key st_step (steps data)\<rparr>"
  by (auto simp: getSteps_def responseText_def parseJsonResponse_def
      split: sum.splits option.splits if_splits)

lemma strictly_increasing_sort_key:
  "sorted_wrt (<) (map st_step (sort_key st_step xs)) \<longleftrightarrow> distinct (map st_step xs)"
proof -
  have "mset (map st_step (sort_key st_step xs)) = mset (map st_step xs)" by simp
  then have "distinct (map st_step (sort_key st_step xs)) \<longleftrightarrow> distinct (map st_step xs)"
    by (rule mset_eq_imp_distinct_iff)
  then show ?thesis by (simp add: strict_sorted_iff)
qed

text \<open>
  C3, as the code has it. The project data that \<open>getSteps\<close> returns is the parsed object
  with its steps put in ascending order of \<open>step\<close> by a stable sort: the same steps, those
  with equal numbers in the order received. The order is strict exactly when the received
  step numbers are pairwise different.
\<close>

theorem getSteps_sorted:
  "getSteps JSON_parse response = Inr result \<Longrightarrow>
   \<exists>txt data.
     response = Inr (Some txt) \<and>
     JSON_parse (parseJsonResponse_input (trim txt)) = Some data \<and>
     result = data\<lparr>steps := steps result\<rparr> \<and>
     sorted (map st_step (steps result)) \<and>
     mset (steps result) = mset (steps data) \<and>
     (\<forall>k. filter (\<lambda>s. st_step s = k) (steps result) = filter (\<lambda>s. st_step s = k) (steps data)) \<and>
     (sorted_wrt (<) (map st_step (steps result)) \<longleftrightarrow> distinct (map st_step (steps data)))"
proof -
  assume "getSteps JSON_parse response = Inr result"
  then obtain payload data where
    r: "response = Inr (Some payload)" and
    p: "JSON_parse (parseJsonResponse_input (trim payload)) = Some data" and
    s: "result = data\<lparr>steps := sort_key st_step (steps data)\<rparr>"
    using getSteps_Inr by blast
  from s have st: "steps result = sort_key st_step (steps data)" by simp
  have "result = data\<lparr>steps := steps result\<rparr>" using s by simp
  moreover have "sorted (map st_step (steps result))" by (simp add: st)
  moreover have "mset (steps result) = mset (steps data)" by (simp add: st)
  moreover have "\<forall>k. filter (\<lambda>s. st_step s = k) (steps result) =
      filter (\<lambda>s. st_step s = k) (steps data)"
    by (simp add: st sort_key_stable)
  moreover have "sorted_wrt (<) (map st_step (steps result)) \<longleftrightarrow>
      distinct (map st_step (steps data))"
    by (simp only: st strictly_increasing_sort_key)
  ultimately show ?thesis using r p by blast
qed

lemma parseJsonResponse_input_plain: "fence_match s = None \<Longrightarrow> parseJsonResponse_input s = s"
  by (simp add: parseJsonResponse_input_def)

lemma getSteps_unordered:
  "getSteps JSON_parse_examples (Inr (Some unordered_steps_payload)) =
     Inr (unordered_steps_data\<lparr>steps :=
       [\<lparr>st_step = 1, st_title = ''Cut'', st_description = ''a''\<rparr>,
        \<lparr>st_step = 2, st_title = ''Weld'', st_description = ''b''\<rparr>]\<rparr>)"
proof -
  have t: "trim unordered_steps_payload = unordered_steps_payload"
    by (rule trim_keep) (simp_all add: unordered_steps_payload_def white_space_def)
  have f: "fence_match unordered_steps_payload = None"
    by (simp add: fence_match_def unordered_steps_payload_def fence_open_def)
  show ?thesis
    by (simp add: getSteps_def responseText_def t parseJsonResponse_def
        parseJsonResponse_input_plain [OF f] JSON_parse_examples_def)
      (simp add: unordered_steps_payload_def unordered_steps_data_def)
qed

lemma getSteps_duplicate:
  "getSteps JSON_parse_examples (Inr (Some duplicate_steps_payload)) = Inr duplicate_steps_data"
proof -
  have t: "trim duplicate_steps_payload = duplicate_steps_payload"
    by (rule trim_keep) (simp_all add: duplicate_steps_payload_def white_space_def)
  have f: "fence_match duplicate_steps_payload = None"
    by (simp add: fence_match_def duplicate_steps_payload_def fence_open_def)
  have d: "duplicate_steps_payload \<noteq> unordered_steps_payload"
    by (simp add: duplicate_steps_payload_def unordered_steps_payload_def)
  show ?thesis
    by (simp add: getSteps_def responseText_def t parseJsonResponse_def
        parseJsonResponse_input_plain [OF f] JSON_parse_examples_def d)
      (simp add: duplicate_steps_payload_def duplicate_steps_data_def)
qed

theorem getSteps_sorted_witness:
  "getSteps JSON_parse_examples (Inr (Some unordered_steps_payload)) =
     Inr (unordered_steps_data\<lparr>steps :=
       [\<lparr>st_step = 1, st_title = ''Cut'', st_description = ''a''\<rparr>,
        \<lparr>st_step = 2, st_title = ''Weld'', st_description = ''b''\<rparr>]\<rparr>) \<and>
   sorted_wrt (<) (map st_step
       [\<lparr>st_step = 1, st_title = ''Cut'', st_description = ''a''\<rparr>,
        \<lparr>st_step = 2, st_title = ''Weld'', st_description = ''b''\<rparr>])"
  using getSteps_sorted [OF getSteps_unordered] getSteps_unordered by simp

text \<open>
  C3, as the claim states it, fails: a response whose two steps both carry the number 1 is
  returned with both, and the returned list is not strictly increasing.
\<close>

theorem getSteps_duplicate_steps_counterexample:
  "getSteps JSON_parse_examples (Inr (Some duplicate_steps_payload)) = Inr duplicate_steps_data \<and>
   map st_step (steps duplicate_steps_data) = [1, 1] \<and>
   \<not> sorted_wrt (<) (map st_step (steps duplicate_steps_data))"
  by (simp add: getSteps_duplicate) (simp add: duplicate_steps_data_def)

section \<open>The JSON extraction helper\<close>

lemma split_on_Some: "split_on pat s = Some (a, b) \<Longrightarrow> s = a @ pat @ b"
proof (induction s arbitrary: a)
  case Nil
  then show ?case by (simp split: if_splits)
next
  case (Cons c cs)
  show ?case
  proof (cases "prefix pat (c # cs)")
    case True
    then obtain r where r: "c # cs = pat @ r" by (auto simp: prefix_def)
    from True Cons.prems have "a = []" and "b = drop (length pat) (c # cs)" by simp_all
    with r show ?thesis by simp
  next
    case False
    with Cons.prems obtain a' where "split_on pat cs = Some (a', b)" and "a = c # a'"
      by auto
    with Cons.IH show ?thesis by simp
  qed
qed

lemma split_on_leftmost:
  "split_on pat s = Some (a, b) \<Longrightarrow> i < length a \<Longrightarrow> \<not> prefix pat (drop i s)"
proof (induction s arbitrary: a i)
  case Nil
  then show ?case by (simp split: if_splits)
next
  case (Cons c cs)
  show ?case
  proof (cases "prefix pat (c # cs)")
    case True
    with Cons.prems show ?thesis by simp
  next
    case False
    with Cons.prems obtain a' where s: "split_on pat cs = Some (a', b)" and a: "a = c # a'"
      by auto
    show ?thesis
    proof (cases i)
      case 0
      with False show ?thesis by simp
    next
      case (Suc j)
      with Cons.prems a have "j < length a'" by simp
      with Cons.IH [OF s] Suc show ?thesis by simp
    qed
  qed
qed

lemma split_on_None: "split_on pat s = None \<Longrightarrow> \<not> prefix pat (drop i s)"
proof (induction s arbitrary: i)
  case Nil
  then show ?case by (simp split: if_splits)
next
  case (Cons c cs)
  then have np: "\<not> prefix pat (c # cs)" and "split_on pat cs = None"
    by (auto split: if_splits)
  with Cons.IH show ?case by (cases i) simp_all
qed

lemma fence_match_Some:
  "fence_match s = Some block \<Longrightarrow>
   \<exists>before after. s = before @ fence_open @ block @ fence_close @ after"
proof -
  assume "fence_match s = Some block"
  then obtain before rest after where
    "split_on fence_open s = Some (before, rest)" and
    "split_on fence_close rest = Some (block, after)"
    by (auto simp: fence_match_def split: option.splits)
  then have "s = before @ fence_open @ rest" and "rest = block @ fence_close @ after"
    by (auto dest: split_on_Some)
  then show ?thesis by blast
qed

lemma fence_match_None_no_opener:
  "split_on fence_open s = None \<Longrightarrow> fence_match s = None"
  by (simp add: fence_match_def)

text \<open>
  Where \<open>JSON.parse\<close> rejects every text that holds a fenced block, and the empty text, the
  helper returns what the procedure of the specification returns. Both hold of
  \<open>JSON.parse\<close>: a back quote can stand only inside a JSON string, and a string cannot hold
  the raw line feed that has to follow \<open>```json\<close>.
\<close>

lemma parseJsonResponse_agrees_with_spec:
  "(\<And>x. fence_match x \<noteq> None \<Longrightarrow> JSON_parse x = None) \<Longrightarrow> JSON_parse [] = None \<Longrightarrow>
   parseJsonResponse JSON_parse s = spec_parseJsonResponse JSON_parse s"
  by (cases "fence_match s")
    (auto simp: parseJsonResponse_def spec_parseJsonResponse_def parseJsonResponse_input_def
      split: option.splits)

lemma fence_match_fenced_payload: "fence_match fenced_payload = Some ''[1]''"
  by (simp add: fence_match_def fenced_payload_def fence_open_def fence_close_def)

text \<open>
  C2, as the code has it. The helper looks for the fenced block first. When the payload
  holds \<open>```json\<close>, a line feed, a non-empty block, a line feed and \<open>```\<close>, the one call of
  \<open>JSON.parse\<close> is on the block, and the helper returns its value or fails with the parse
  error if that call fails: the payload as a whole is never parsed. Only when there is no
  such block, or the block is empty, the one call is on the whole payload, and again the
  helper returns its value or fails with the parse error.
\<close>

theorem parseJsonResponse_fence_first:
  "(fence_match s = Some block \<and> block \<noteq> [] \<longrightarrow>
      parseJsonResponse_attempts s = [block] \<and>
      parseJsonResponse JSON_parse s =
        (case JSON_parse block of Some v \<Rightarrow> Inr v | None \<Rightarrow> Inl InvalidJsonResponse) \<and>
      (\<exists>before after. s = before @ fence_open @ block @ fence_close @ after)) \<and>
   (fence_match s = None \<or> fence_match s = Some [] \<longrightarrow>
      parseJsonResponse_attempts s = [s] \<and>
      parseJsonResponse JSON_parse s =
        (case JSON_parse s of Some v \<Rightarrow> Inr v | None \<Rightarrow> Inl InvalidJsonResponse))"
  using fence_match_Some [of s block]
  by (auto simp: parseJsonResponse_attempts_def parseJsonResponse_def
      parseJsonResponse_input_def)

theorem parseJsonResponse_fence_first_witness:
  "parseJsonResponse_attempts fenced_payload = [''[1]''] \<and>
   parseJsonResponse JSON_parse_one fenced_payload = Inr [1] \<and>
   parseJsonResponse_attempts ''[1]'' = [''[1]''] \<and>
   parseJsonResponse JSON_parse_one ''[1]'' = Inr [1] \<and>
   parseJsonResponse JSON_parse_one ''[1'' = Inl InvalidJsonResponse"
proof -
  have plain: "fence_match ''[1]'' = None" "fence_match ''[1'' = None"
    by (simp_all add: fence_match_def fence_open_def)
  show ?thesis
    using parseJsonResponse_fence_first [of fenced_payload "''[1]''" JSON_parse_one]
      parseJsonResponse_fence_first [of "''[1]''" _ JSON_parse_one]
      parseJsonResponse_fence_first [of "''[1''" _ JSON_parse_one]
    by (simp add: fence_match_fenced_payload plain JSON_parse_one_def)
qed

text \<open>
  C2, as the claim states it, fails: on the payload that wraps \<open>[1]\<close> in a fenced block
  the helper calls \<open>JSON.parse\<close> once, on \<open>[1]\<close>; it does not attempt the payload itself,
  which the procedure of the claim would try first.
\<close>

theorem parseJsonResponse_direct_first_counterexample:
  "parseJsonResponse_attempts fenced_payload = [''[1]''] \<and>
   fenced_payload \<notin> set (parseJsonResponse_attempts fenced_payload) \<and>
   spec_parse_attempts JSON_parse_one fenced_payload = [fenced_payload, ''[1]''] \<and>
   parseJsonResponse_attempts fenced_payload \<noteq> spec_parse_attempts JSON_parse_one fenced_payload"
proof -
  have a: "parseJsonResponse_attempts fenced_payload = [''[1]'']"
    by (simp add: parseJsonResponse_attempts_def parseJsonResponse_input_def
        fence_match_fenced_payload)
  have n: "fenced_payload \<noteq> ''[1]''" by (simp add: fenced_payload_def)
  have s: "spec_parse_attempts JSON_parse_one fenced_payload = [fenced_payload, ''[1]'']"
    by (simp add: spec_parse_attempts_def JSON_parse_one_def n fence_match_fenced_payload)
  show ?thesis by (simp add: a s n)
qed

section \<open>Chat\<close>

lemma handleSendMessage_begin_rejects:
  "trim typed = [] \<or> chat st = None \<or> isChatLoading st \<Longrightarrow>
   handleSendMessage_begin now typed st = (st, None)"
  by (auto simp: handleSendMessage_begin_def Let_def)

lemma handleSendMessage_begin_accepts:
  "trim typed \<noteq> [] \<Longrightarrow> chat st \<noteq> None \<Longrightarrow> \<not> isChatLoading st \<Longrightarrow>
   handleSendMessage_begin now typed st =
     (st\<lparr>chatMessages := chatMessages st @
           [\<lparr>c_id = toString now, c_role = User, c_text = trim typed\<rparr>],
         isChatLoading := True\<rparr>,
      Some (trim typed))"
  by (simp add: handleSendMessage_begin_def Let_def)

lemma handleSendMessage_begin_Some:
  "handleSendMessage_begin now typed st = (st1, Some request) \<Longrightarrow>
   isChatLoading st1 \<and> length (chatMessages st1) = Suc (length (chatMessages st))"
  by (auto simp: handleSendMessage_begin_def Let_def split: if_splits)

lemma chat_opened_state_fields:
  "chat chat_opened_state = Some (startChat En) \<and> \<not> isChatLoading chat_opened_state \<and>
   map c_id (chatMessages chat_opened_state) = [''initial'']"
  by (simp add: chat_opened_state_def handleSetTab_def initChat_def state_def Let_def)

lemma trim_hi: "trim ''hi'' = ''hi''" and trim_again: "trim ''again'' = ''again''"
  by (rule trim_keep; simp add: white_space_def)+

lemma toString_1001: "toString 1001 = ''1001''" and toString_1000: "toString 1000 = ''1000''"
  by (simp_all add: toString_more toString_digit digit_char_def)

text \<open>
  C4, as the code has it. While \<open>isChatLoading\<close> is set, \<open>handleSendMessage\<close> does
  nothing: the state is unchanged and no request is issued. A send that is accepted sets the
  flag, so a further send is refused from then on, until the flag is cleared: that happens
  when the stream has been obtained (before the first fragment is read), or in the
  \<open>catch\<close> block.
\<close>

theorem handleSendMessage_noop_while_loading:
  "(isChatLoading st \<longrightarrow> handleSendMessage_begin now typed st = (st, None)) \<and>
   (handleSendMessage_begin sent first st = (st1, Some request) \<longrightarrow>
      isChatLoading st1 \<and> handleSendMessage_begin now typed st1 = (st1, None)) \<and>
   \<not> isChatLoading (fst (handleSendMessage_opened opened st)) \<and>
   \<not> isChatLoading (handleSendMessage_failed now st)"
  using handleSendMessage_begin_Some [of sent first st st1 request]
  by (auto simp: handleSendMessage_begin_rejects handleSendMessage_opened_def
      handleSendMessage_failed_def Let_def)

theorem handleSendMessage_noop_while_loading_witness:
  "handleSendMessage_begin 1000 ''hi'' chat_opened_state =
     (chat_opened_state\<lparr>chatMessages := chatMessages chat_opened_state @
           [\<lparr>c_id = ''1000'', c_role = User, c_text = ''hi''\<rparr>],
         isChatLoading := True\<rparr>,
      Some ''hi'') \<and>
   handleSendMessage_begin 1000 ''again''
     (chat_opened_state\<lparr>chatMessages := chatMessages chat_opened_state @
           [\<lparr>c_id = ''1000'', c_role = User, c_text = ''hi''\<rparr>],
         isChatLoading := True\<rparr>) =
     (chat_opened_state\<lparr>chatMessages := chatMessages chat_opened_state @
           [\<lparr>c_id = ''1000'', c_role = User, c_text = ''hi''\<rparr>],
         isChatLoading := True\<rparr>,
      None)"
proof -
  have b: "handleSendMessage_begin 1000 ''hi'' chat_opened_state =
     (chat_opened_state\<lparr>chatMessages := chatMessages chat_opened_state @
           [\<lparr>c_id = ''1000'', c_role = User, c_text = ''hi''\<rparr>],
         isChatLoading := True\<rparr>,
      Some ''hi'')"
    using handleSendMessage_begin_accepts [of "''hi''" chat_opened_state 1000]
    by (simp add: trim_hi chat_opened_state_fields toString_1000)
  have l: "isChatLoading (chat_opened_state\<lparr>chatMessages := chatMessages chat_opened_state @
           [\<lparr>c_id = ''1000'', c_role = User, c_text = ''hi''\<rparr>],
         isChatLoading := True\<rparr>)"
    by simp
  show ?thesis
    using b l handleSendMessage_noop_while_loading
      [where st = chat_opened_state and sent = 1000 and first = "''hi''" and request = "''hi''"
        and now = 1000 and typed = "''again''"]
      handleSendMessage_noop_while_loading
      [where st = "chat_opened_state\<lparr>chatMessages := chatMessages chat_opened_state @
           [\<lparr>c_id = ''1000'', c_role = User, c_text = ''hi''\<rparr>],
         isChatLoading := True\<rparr>" and now = 1000 and typed = "''again''"]
    by simp
qed

lemma streaming_state_fields:
  "chat streaming_state = Some (startChat En) \<and> \<not> isChatLoading streaming_state \<and>
   length (chatMessages streaming_state) = 3"
  by (simp add: streaming_state_def handleSendMessage_chunk_def handleSendMessage_opened_def
      handleSendMessage_begin_accepts trim_hi chat_opened_state_fields Let_def
      split: option.splits)
    (simp add: chat_opened_state_def handleSetTab_def initChat_def state_def Let_def)

text \<open>
  C4, as the claim states it, fails. In \<open>streaming_state\<close> the first message has been
  sent, its stream has opened and only the first fragment of the reply has arrived; a second
  send is accepted there: it appends its user message and issues a request.
\<close>

theorem handleSendMessage_during_stream_counterexample:
  "length (chatMessages streaming_state) = 3 \<and>
   length (chatMessages (fst (handleSendMessage_begin 1002 ''again'' streaming_state))) = 4 \<and>
   snd (handleSendMessage_begin 1002 ''again'' streaming_state) = Some ''again''"
  using handleSendMessage_begin_accepts [of "''again''" streaming_state 1002]
  by (simp add: trim_again streaming_state_fields)

lemma findIndex_last:
  "p m \<Longrightarrow> \<forall>x\<in>set before. \<not> p x \<Longrightarrow> findIndex p (before @ [m]) = Some (length before)"
  by (induction before) simp_all

lemma handleSendMessage_chunk_last:
  assumes "chatMessages st = before @ [m]"
    and "c_id m = i"
    and "\<forall>x\<in>set before. c_id x \<noteq> i"
  shows "handleSendMessage_chunk c (st, \<lparr>modelMessageId = i, modelResponse = acc\<rparr>) =
     (st\<lparr>chatMessages := before @ [m\<lparr>c_text := acc @ or_empty c\<rparr>]\<rparr>,
      \<lparr>modelMessageId = i, modelResponse = acc @ or_empty c\<rparr>)"
proof -
  have "findIndex (\<lambda>x. c_id x = i) (before @ [m]) = Some (length before)"
    using assms(2,3) by (intro findIndex_last) simp_all
  with assms(1) show ?thesis
    by (simp add: handleSendMessage_chunk_def Let_def)
qed

lemma handleSendMessage_stream_last:
  assumes "chatMessages st = before @ [m]"
    and "c_id m = i"
    and "\<forall>x\<in>set before. c_id x \<noteq> i"
  shows "handleSendMessage_stream chunks (st, \<lparr>modelMessageId = i, modelResponse = acc\<rparr>) =
     (st\<lparr>chatMessages := before @
           [m\<lparr>c_text := (if chunks = [] then c_text m
                          else acc @ concat (map or_empty chunks))\<rparr>]\<rparr>,
      \<lparr>modelMessageId = i, modelResponse = acc @ concat (map or_empty chunks)\<rparr>)"
  using assms
proof (induction chunks arbitrary: st m acc)
  case Nil
  then show ?case by (simp add: handleSendMessage_stream_def)
next
  case (Cons c chunks)
  let ?m = "m\<lparr>c_text := acc @ or_empty c\<rparr>"
  let ?st = "st\<lparr>chatMessages := before @ [?m]\<rparr>"
  have step: "handleSendMessage_chunk c (st, \<lparr>modelMessageId = i, modelResponse = acc\<rparr>) =
      (?st, \<lparr>modelMessageId = i, modelResponse = acc @ or_empty c\<rparr>)"
    using Cons.prems by (rule handleSendMessage_chunk_last)
  have "handleSendMessage_stream chunks (?st, \<lparr>modelMessageId = i, modelResponse = acc @ or_empty c\<rparr>) =
     (?st\<lparr>chatMessages := before @
           [?m\<lparr>c_text := (if chunks = [] then c_text ?m
                          else (acc @ or_empty c) @ concat (map or_empty chunks))\<rparr>]\<rparr>,
      \<lparr>modelMessageId = i, modelResponse = (acc @ or_empty c) @ concat (map or_empty chunks)\<rparr>)"
    using Cons.prems by (intro Cons.IH) simp_all
  then show ?case
    using step by (simp add: handleSendMessage_stream_def)
qed

lemma handleSendMessage_transcript:
  assumes "trim typed \<noteq> []" and "chat st \<noteq> None" and "\<not> isChatLoading st"
    and "toString opened @ ''-model'' \<notin> c_id ` set (chatMessages st)"
  shows "chatMessages (fst (handleSendMessage_stream chunks
            (handleSendMessage_opened opened (fst (handleSendMessage_begin sent typed st))))) =
         chatMessages st @
           [\<lparr>c_id = toString sent, c_role = User, c_text = trim typed\<rparr>,
            \<lparr>c_id = toString opened @ ''-model'', c_role = Model,
              c_text = (if chunks = [] then ''...'' else concat (map or_empty chunks))\<rparr>]"
proof -
  let ?i = "toString opened @ ''-model''"
  let ?u = "\<lparr>c_id = toString sent, c_role = User, c_text = trim typed\<rparr>"
  let ?m = "\<lparr>c_id = ?i, c_role = Model, c_text = ''...''\<rparr>"
  let ?st1 = "st\<lparr>chatMessages := chatMessages st @ [?u], isChatLoading := True\<rparr>"
  let ?st2 = "?st1\<lparr>isChatLoading := False, chatMessages := chatMessages ?st1 @ [?m]\<rparr>"
  have b: "fst (handleSendMessage_begin sent typed st) = ?st1"
    using assms(1-3) by (simp add: handleSendMessage_begin_accepts)
  have o: "handleSendMessage_opened opened ?st1 = (?st2, \<lparr>modelMessageId = ?i, modelResponse = []\<rparr>)"
    by (simp add: handleSendMessage_opened_def Let_def)
  have fresh: "\<forall>x\<in>set (chatMessages st @ [?u]). c_id x \<noteq> ?i"
    using assms(4) toString_not_model [of sent opened] by (auto simp: image_iff)
  have "handleSendMessage_stream chunks (?st2, \<lparr>modelMessageId = ?i, modelResponse = []\<rparr>) =
     (?st2\<lparr>chatMessages := (chatMessages st @ [?u]) @
           [?m\<lparr>c_text := (if chunks = [] then c_text ?m
                          else [] @ concat (map or_empty chunks))\<rparr>]\<rparr>,
      \<lparr>modelMessageId = ?i, modelResponse = [] @ concat (map or_empty chunks)\<rparr>)"
    using fresh by (intro handleSendMessage_stream_last) simp_all
  then show ?thesis by (simp add: b o)
qed

lemma handleSendMessage_run:
  assumes "trim typed \<noteq> []" and "chat st \<noteq> None" and "\<not> isChatLoading st"
    and "toString opened @ ''-model'' \<notin> c_id ` set (chatMessages st)"
  shows "chatMessages (handleSendMessage sent opened typed chunks st) =
         chatMessages st @
           [\<lparr>c_id = toString sent, c_role = User, c_text = trim typed\<rparr>,
            \<lparr>c_id = toString opened @ ''-model'', c_role = Model,
              c_text = (if chunks = [] then ''...'' else concat (map or_empty chunks))\<rparr>]"
proof -
  have "handleSendMessage sent opened typed chunks st =
      fst (handleSendMessage_stream chunks
            (handleSendMessage_opened opened (fst (handleSendMessage_begin sent typed st))))"
    using assms(1-3) by (simp add: handleSendMessage_def handleSendMessage_begin_accepts)
  then show ?thesis
    using handleSendMessage_transcript [OF assms] by simp
qed

lemma handleSendMessage_other_fields:
  "chat (handleSendMessage sent opened typed chunks st) = chat st"
proof -
  have c: "\<And>c sr. chat (fst (handleSendMessage_chunk c sr)) = chat (fst sr)"
    by (simp add: handleSendMessage_chunk_def Let_def split: option.splits)
  have s: "\<And>sr. chat (fst (handleSendMessage_stream chunks sr)) = chat (fst sr)"
    unfolding handleSendMessage_stream_def
    by (induction chunks) (simp_all add: c)
  show ?thesis
    by (auto simp: handleSendMessage_def handleSendMessage_begin_def s
        handleSendMessage_opened_def Let_def split: prod.splits option.splits)
qed

lemma handleSendMessage_not_loading:
  "trim typed \<noteq> [] \<Longrightarrow> chat st \<noteq> None \<Longrightarrow> \<not> isChatLoading st \<Longrightarrow>
   \<not> isChatLoading (handleSendMessage sent opened typed chunks st)"
proof -
  assume g: "trim typed \<noteq> []" "chat st \<noteq> None" "\<not> isChatLoading st"
  have c: "\<And>c sr. isChatLoading (fst (handleSendMessage_chunk c sr)) = isChatLoading (fst sr)"
    by (simp add: handleSendMessage_chunk_def Let_def split: option.splits)
  have s: "\<And>sr. isChatLoading (fst (handleSendMessage_stream chunks sr)) = isChatLoading (fst sr)"
    unfolding handleSendMessage_stream_def
    by (induction chunks) (simp_all add: c)
  show ?thesis
    using g by (simp add: handleSendMessage_def handleSendMessage_begin_accepts s
        handleSendMessage_opened_def Let_def)
qed

text \<open>
  C9, as the code has it. Take a send that passes the guard and runs without interruption,
  and let no message of the transcript carry the id minted for the reply (the clock reading
  at the opening of the stream followed by \<open>-model\<close>). Then after every number of
  fragments the transcript is the old transcript, the user message and one model message
  with that id; the text of the model message is the placeholder \<open>...\<close> as long as no
  fragment has arrived, and afterwards the concatenation of the fragments received so far.
  At the end of the stream it is the concatenation of all fragments, and the placeholder
  when the stream had none.
\<close>

theorem handleSendMessage_single_reply:
  "trim typed \<noteq> [] \<Longrightarrow> chat st \<noteq> None \<Longrightarrow> \<not> isChatLoading st \<Longrightarrow>
   toString opened @ ''-model'' \<notin> set (map c_id (chatMessages st)) \<Longrightarrow>
   (\<forall>n\<le>length chunks.
      chatMessages (fst (handleSendMessage_stream (take n chunks)
         (handleSendMessage_opened opened (fst (handleSendMessage_begin sent typed st))))) =
      chatMessages st @
        [\<lparr>c_id = toString sent, c_role = User, c_text = trim typed\<rparr>,
         \<lparr>c_id = toString opened @ ''-model'', c_role = Model,
           c_text = (if n = 0 then ''...'' else concat (map or_empty (take n chunks)))\<rparr>]) \<and>
   chatMessages (handleSendMessage sent opened typed chunks st) =
      chatMessages st @
        [\<lparr>c_id = toString sent, c_role = User, c_text = trim typed\<rparr>,
         \<lparr>c_id = toString opened @ ''-model'', c_role = Model,
           c_text = (if chunks = [] then ''...'' else concat (map or_empty chunks))\<rparr>]"
proof -
  assume g: "trim typed \<noteq> []" "chat st \<noteq> None" "\<not> isChatLoading st"
    and f: "toString opened @ ''-model'' \<notin> set (map c_id (chatMessages st))"
  from f have f': "toString opened @ ''-model'' \<notin> c_id ` set (chatMessages st)" by simp
  have "\<And>n. n \<le> length chunks \<Longrightarrow> (take n chunks = []) = (n = 0)"
    by (cases chunks) auto
  then show ?thesis
    using handleSendMessage_transcript [OF g f', of _ sent]
      handleSendMessage_run [OF g f', of sent chunks]
    by simp
qed

theorem handleSendMessage_single_reply_witness:
  "chatMessages (handleSendMessage 1000 1001 ''hi'' [Some ''Hel'', Some ''lo''] chat_opened_state) =
     chatMessages chat_opened_state @
       [\<lparr>c_id = ''1000'', c_role = User, c_text = ''hi''\<rparr>,
        \<lparr>c_id = ''1001-model'', c_role = Model, c_text = ''Hello''\<rparr>] \<and>
   chatMessages (fst (handleSendMessage_stream [Some ''Hel'']
         (handleSendMessage_opened 1001 (fst (handleSendMessage_begin 1000 ''hi'' chat_opened_state))))) =
     chatMessages chat_opened_state @
       [\<lparr>c_id = ''1000'', c_role = User, c_text = ''hi''\<rparr>,
        \<lparr>c_id = ''1001-model'', c_role = Model, c_text = ''Hel''\<rparr>]"
proof -
  have g: "trim ''hi'' \<noteq> []" "chat chat_opened_state \<noteq> None" "\<not> isChatLoading chat_opened_state"
    by (simp_all add: trim_hi chat_opened_state_fields)
  have f: "toString 1001 @ ''-model'' \<notin> set (map c_id (chatMessages chat_opened_state))"
    by (simp add: chat_opened_state_fields toString_1001)
  have "(1::nat) \<le> length [Some ''Hel'', Some ''lo'']" by simp
  then show ?thesis
    using handleSendMessage_single_reply [OF g f, of "[Some ''Hel'', Some ''lo'']" 1000]
    by (auto simp: trim_hi toString_1000 toString_1001 or_empty_def)
qed

lemma replied_state_fields:
  "chat replied_state = Some (startChat En) \<and> \<not> isChatLoading replied_state \<and>
   chatMessages replied_state =
     chatMessages chat_opened_state @
       [\<lparr>c_id = ''1000'', c_role = User, c_text = ''hi''\<rparr>,
        \<lparr>c_id = ''1001-model'', c_role = Model, c_text = ''Hello''\<rparr>]"
proof -
  have g: "trim ''hi'' \<noteq> []" "chat chat_opened_state \<noteq> None" "\<not> isChatLoading chat_opened_state"
    by (simp_all add: trim_hi chat_opened_state_fields)
  have f: "toString 1001 @ ''-model'' \<notin> c_id ` set (chatMessages chat_opened_state)"
    using chat_opened_state_fields by (simp add: toString_1001 flip: set_map)
  show ?thesis
    unfolding replied_state_def
    using handleSendMessage_run [OF g f, of 1000 "[Some ''Hel'', Some ''lo'']"]
      handleSendMessage_not_loading [OF g, of 1000 1001 "[Some ''Hel'', Some ''lo'']"]
    by (simp add: handleSendMessage_other_fields chat_opened_state_fields trim_hi
        toString_1000 toString_1001 or_empty_def)
qed

lemma chat_opened_state_messages:
  "chatMessages chat_opened_state =
     [\<lparr>c_id = ''initial'', c_role = Model, c_text = shown (t ''chatbot_greeting'' En)\<rparr>]"
  by (simp add: chat_opened_state_def handleSetTab_def initChat_def state_def Let_def)

text \<open>
  C9, as the claim states it, fails at two inputs. A stream that ends without a fragment
  leaves the model message with the placeholder \<open>...\<close>, not with the empty concatenation.
  And when the stream of a second exchange opens at the clock reading at which the first one
  opened, both replies get the id \<open>1001-model\<close>: the fragment \<open>Bye\<close> overwrites the first
  reply \<open>Hello\<close>, and the message appended for the second reply keeps the placeholder.
\<close>

theorem handleSendMessage_reply_text_counterexample:
  "chatMessages (handleSendMessage 1000 1001 ''hi'' [] chat_opened_state) =
     chatMessages chat_opened_state @
       [\<lparr>c_id = ''1000'', c_role = User, c_text = ''hi''\<rparr>,
        \<lparr>c_id = ''1001-model'', c_role = Model, c_text = ''...''\<rparr>] \<and>
   ''...'' \<noteq> concat (map or_empty []) \<and>
   chatMessages (handleSendMessage 1001 1001 ''again'' [Some ''Bye''] replied_state) =
     chatMessages chat_opened_state @
       [\<lparr>c_id = ''1000'', c_role = User, c_text = ''hi''\<rparr>,
        \<lparr>c_id = ''1001-model'', c_role = Model, c_text = ''Bye''\<rparr>,
        \<lparr>c_id = ''1001'', c_role = User, c_text = ''again''\<rparr>,
        \<lparr>c_id = ''1001-model'', c_role = Model, c_text = ''...''\<rparr>]"
proof -
  have g: "trim ''hi'' \<noteq> []" "chat chat_opened_state \<noteq> None" "\<not> isChatLoading chat_opened_state"
    by (simp_all add: trim_hi chat_opened_state_fields)
  have f: "toString 1001 @ ''-model'' \<notin> c_id ` set (chatMessages chat_opened_state)"
    using chat_opened_state_fields by (simp add: toString_1001 flip: set_map)
  have first: "chatMessages (handleSendMessage 1000 1001 ''hi'' [] chat_opened_state) =
     chatMessages chat_opened_state @
       [\<lparr>c_id = ''1000'', c_role = User, c_text = ''hi''\<rparr>,
        \<lparr>c_id = ''1001-model'', c_role = Model, c_text = ''...''\<rparr>]"
    using handleSendMessage_run [OF g f, of 1000 "[]"]
    by (simp add: trim_hi toString_1000 toString_1001)
  have g2: "trim ''again'' \<noteq> []" "chat replied_state \<noteq> None" "\<not> isChatLoading replied_state"
    by (simp_all add: trim_again replied_state_fields)
  have second: "chatMessages (handleSendMessage 1001 1001 ''again'' [Some ''Bye''] replied_state) =
     chatMessages chat_opened_state @
       [\<lparr>c_id = ''1000'', c_role = User, c_text = ''hi''\<rparr>,
        \<lparr>c_id = ''1001-model'', c_role = Model, c_text = ''Bye''\<rparr>,
        \<lparr>c_id = ''1001'', c_role = User, c_text = ''again''\<rparr>,
        \<lparr>c_id = ''1001-model'', c_role = Model, c_text = ''...''\<rparr>]"
    using g2
    by (simp add: handleSendMessage_def handleSendMessage_begin_accepts
        handleSendMessage_opened_def handleSendMessage_stream_def handleSendMessage_chunk_def
        replied_state_fields chat_opened_state_messages trim_again toString_1001
        or_empty_def Let_def)
  show ?thesis using first second by simp
qed


end
